theory Spec2Isabelle
  imports Complex_Main "HOL-Library.AList" "HOL-Library.Char_ord" "HOL-Library.List_Lexorder"
begin

section \<open>Data model\<close>

subsection \<open>Array elements and arrays\<close>

text \<open>
  The elements of a numpy array as the wrappers meet them: integer labels, floating-point
  values (idealised as reals; rounding is outside the model) and string labels.
\<close>

datatype scalar = SInt int | SReal real | SStr string

text \<open>
  \<open>np.unique\<close> and \<open>np.searchsorted\<close> compare elements. An array holds elements of one
  kind; between kinds the order below goes by kind, which no array of the program exercises.
\<close>

fun scalar_rank :: "scalar \<Rightarrow> nat" where
  "scalar_rank (SInt _) = 0"
| "scalar_rank (SReal _) = 1"
| "scalar_rank (SStr _) = 2"

fun scalar_le :: "scalar \<Rightarrow> scalar \<Rightarrow> bool" where
  "scalar_le (SInt a) (SInt b) = (a \<le> b)"
| "scalar_le (SReal a) (SReal b) = (a \<le> b)"
| "scalar_le (SStr a) (SStr b) = (a \<le> b)"
| "scalar_le x y = (scalar_rank x < scalar_rank y)"

instantiation scalar :: linorder
begin

definition less_eq_scalar :: "scalar \<Rightarrow> scalar \<Rightarrow> bool" where
  "less_eq_scalar x y = scalar_le x y"

definition less_scalar :: "scalar \<Rightarrow> scalar \<Rightarrow> bool" where
  "less_scalar x y = (scalar_le x y \<and> \<not> scalar_le y x)"

instance
proof
  fix x y z :: scalar
  show "(x < y) = (x \<le> y \<and> \<not> y \<le> x)"
    by (simp add: less_eq_scalar_def less_scalar_def)
  show "x \<le> x"
    by (cases x) (simp_all add: less_eq_scalar_def)
  show "x \<le> y \<Longrightarrow> y \<le> z \<Longrightarrow> x \<le> z"
    by (cases x; cases y; cases z) (simp_all add: less_eq_scalar_def)
  show "x \<le> y \<Longrightarrow> y \<le> x \<Longrightarrow> x = y"
    by (cases x; cases y) (simp_all add: less_eq_scalar_def)
  show "x \<le> y \<or> y \<le> x"
    by (cases x; cases y) (auto simp add: less_eq_scalar_def)
qed

end

text \<open>
  A numpy array is a shape and a row-major buffer; it is well formed when the buffer
  holds exactly the product of the dimensions.
\<close>

datatype 'a ndarray = NDArray (shape: "nat list") (data: "'a list")


definition ndim :: "'a ndarray \<Rightarrow> nat" where
  "ndim a = length (shape a)"

subsection \<open>Callables and their declared parameters\<close>

text \<open>What \<open>inspect.getfullargspec\<close> reports of a callable.\<close>

record signature =
  sig_args :: "string list"
  sig_kwonlyargs :: "string list"
  sig_varargs :: "string option"
  sig_varkw :: "string option"

text \<open>
  Modelled from the spec: \<open>has_arg\<close> of the Keras utilities, which is not part of the
  repository. A name is accepted when it is a declared, named parameter of the callable
  (positional-or-keyword or keyword-only); variadic catch-all parameters make no name legal.
\<close>

definition has_arg :: "signature \<Rightarrow> string \<Rightarrow> bool" where
  "has_arg fn name = (name \<in> set (sig_args fn) \<or> name \<in> set (sig_kwonlyargs fn))"

text \<open>A plain function or a callable object handed in as \<open>build_fn\<close>.\<close>

record fn =
  fn_id :: nat
  fn_sig :: signature

subsection \<open>The opaque model\<close>

datatype loss = CategoricalCrossentropy | OtherLoss string

datatype loss_spec = LossSingle loss | LossList "loss list"

text \<open>
  The Keras model as far as the wrappers look into it: the declared parameters of its
  \<open>fit\<close>, \<open>predict\<close> and (when present) \<open>evaluate\<close>, its compiled loss, the number
  of outputs it exposes and its training configuration (absent when it was never
  compiled).
\<close>

record model =
  model_id :: nat
  fit_sig :: signature
  predict_sig :: signature
  evaluate_sig :: "signature option"
  model_loss :: loss_spec
  n_heads :: nat
  training_config :: "nat option"

subsection \<open>Python values and dictionaries\<close>

datatype pyval =
    PNone
  | PBool bool
  | PInt int
  | PReal real
  | PStr string
  | PArr "scalar ndarray"
  | PSeq "pyval list"
  | PModel model
  | PFunction fn
  | PCallableObj fn
  | PHistory nat
  | PObj nat

text \<open>
  A dictionary keeps its keys in insertion order; \<open>d[k] = v\<close> and \<open>d.update({k: v})\<close>
  replace the value of a present key in place and append an absent one.
\<close>

type_synonym 'v dict = "(string \<times> 'v) list"

definition dict_set :: "string \<Rightarrow> 'v \<Rightarrow> 'v dict \<Rightarrow> 'v dict" where
  "dict_set k v d = AList.update k v d"

text \<open>\<open>{**base, **override}\<close>\<close>

definition dict_merge :: "'v dict \<Rightarrow> 'v dict \<Rightarrow> 'v dict" where
  "dict_merge base override = fold (\<lambda>(k, v) d. dict_set k v d) override base"

definition dict_keys :: "'v dict \<Rightarrow> string list" where
  "dict_keys d = map fst d"

subsection \<open>Errors\<close>

datatype error =
    NotFittedError
  | ValueError_MustImplementCall
  | ValueError_CannotImplementCall
  | ValueError_BuildFnNotCallable
  | ValueError_NotCompiled model
  | ValueError_SampleWeightUnsupported model
  | ValueError_UnknownLabelType string
  | ValueError_UnknownTaskType
  | ValueError_InvalidParameter string
  | RuntimeError_OutputMismatch pyval nat
  | ValueError string
  | TypeError string
  | AttributeError string
  | IndexError string
  | AxisError string
  | ZeroDivisionError
  | KeyError string

section \<open>The numpy operations the wrappers use\<close>

text \<open>
  numpy is not part of the repository; each operation is written out for the row-major
  arrays above, with the exceptions numpy raises as error results.
\<close>

text \<open>\<open>np.squeeze\<close>: every dimension of extent one is dropped.\<close>

definition squeeze :: "'a ndarray \<Rightarrow> 'a ndarray" where
  "squeeze a = NDArray (filter (\<lambda>d. d \<noteq> 1) (shape a)) (data a)"

text \<open>\<open>y.reshape(-1, 1)\<close>\<close>

definition reshape_column :: "'a ndarray \<Rightarrow> 'a ndarray" where
  "reshape_column a = NDArray [length (data a), 1] (data a)"

text \<open>\<open>y.shape[1]\<close>\<close>

definition shape1 :: "'a ndarray \<Rightarrow> error + nat" where
  "shape1 a = (case shape a of
                 _ # m # _ \<Rightarrow> Inr m
               | _ \<Rightarrow> Inl (IndexError ''tuple index out of range''))"

text \<open>\<open>np.unique\<close>: the sorted distinct elements, as a one-dimensional array.\<close>

definition np_unique :: "'a::linorder ndarray \<Rightarrow> 'a ndarray" where
  "np_unique a = (let u = sort (remdups (data a)) in NDArray [length u] u)"

text \<open>
  \<open>np.searchsorted(classes, y)\<close> with the default left side: for each element the first
  position of the sorted \<open>classes\<close> whose entry is not below it.
\<close>

definition searchsorted1 :: "'a::linorder list \<Rightarrow> 'a \<Rightarrow> nat" where
  "searchsorted1 cs v = length (takeWhile (\<lambda>c. c < v) cs)"

definition searchsorted :: "scalar ndarray \<Rightarrow> scalar ndarray \<Rightarrow> scalar ndarray" where
  "searchsorted classes y =
     NDArray (shape y) (map (\<lambda>v. SInt (int (searchsorted1 (data classes) v))) (data y))"

text \<open>The extent of one step along the first axis, and the \<open>i\<close>-th such slice of the buffer.\<close>

definition row_width :: "'a ndarray \<Rightarrow> nat" where
  "row_width a = prod_list (tl (shape a))"

definition row_chunk :: "'a ndarray \<Rightarrow> nat \<Rightarrow> 'a list" where
  "row_chunk a i = take (row_width a) (drop (i * row_width a) (data a))"

text \<open>Iterating an array yields its slices along the first axis; a 0-d array cannot be iterated.\<close>

definition np_iter :: "'a ndarray \<Rightarrow> error + 'a ndarray list" where
  "np_iter a = (case shape a of
                  [] \<Rightarrow> Inl (TypeError ''iteration over a 0-d array'')
                | n # rest \<Rightarrow> Inr (map (\<lambda>i. NDArray rest (row_chunk a i)) [0..<n]))"

text \<open>
  \<open>np.split(y, y.shape[1], axis=1)\<close> on an array of at least two dimensions: one block of
  extent one along axis 1 per column. With no column the section count is zero and the
  divisibility test divides by zero.
\<close>

definition column_block :: "'a ndarray \<Rightarrow> nat \<Rightarrow> 'a ndarray" where
  "column_block a j =
     (let n = hd (shape a); m = hd (tl (shape a)); rest = drop 2 (shape a);
          r = prod_list rest
      in NDArray (n # 1 # rest)
           (concat (map (\<lambda>i. take r (drop ((i * m + j) * r) (data a))) [0..<n])))"

definition split_columns :: "'a ndarray \<Rightarrow> error + 'a ndarray list" where
  "split_columns a =
     (case shape a of
        n # m # rest \<Rightarrow>
          if m = 0 then Inl ZeroDivisionError
          else Inr (map (column_block a) [0..<m])
      | _ \<Rightarrow> Inl (IndexError ''tuple index out of range''))"

text \<open>
  \<open>np.concatenate(arrays, axis=1)\<close>: the arrays agree in every extent but the second;
  row by row their slices are laid side by side.
\<close>

definition concatenate1 :: "'a ndarray list \<Rightarrow> error + 'a ndarray" where
  "concatenate1 arrs =
     (case arrs of
        [] \<Rightarrow> Inl (ValueError ''need at least one array to concatenate'')
      | a # others \<Rightarrow>
          if list_ex (\<lambda>b. ndim b < 2) arrs
            then Inl (AxisError ''axis 1 is out of bounds'')
          else if list_ex (\<lambda>b. hd (shape b) \<noteq> hd (shape a)
                                \<or> drop 2 (shape b) \<noteq> drop 2 (shape a)) others
            then Inl (ValueError ''all the input array dimensions must match'')
          else Inr (NDArray
                 (hd (shape a) # sum_list (map (\<lambda>b. hd (tl (shape b))) arrs) # drop 2 (shape a))
                 (concat (map (\<lambda>i. concat (map (\<lambda>b. row_chunk b i) arrs))
                            [0..<hd (shape a)]))))"

text \<open>
  \<open>np.column_stack\<close>: arrays of fewer than two dimensions become columns, then all are
  concatenated along axis 1.
\<close>

definition as_column :: "'a ndarray \<Rightarrow> 'a ndarray" where
  "as_column a = (case shape a of
                    [] \<Rightarrow> NDArray [1, 1] (data a)
                  | [n] \<Rightarrow> NDArray [n, 1] (data a)
                  | _ \<Rightarrow> a)"

definition column_stack :: "'a ndarray list \<Rightarrow> error + 'a ndarray" where
  "column_stack arrs = concatenate1 (map as_column arrs)"

text \<open>Running a fallible function over a list stops at the first error.\<close>

fun map_result :: "('a \<Rightarrow> error + 'b) \<Rightarrow> 'a list \<Rightarrow> error + 'b list" where
  "map_result f [] = Inr []"
| "map_result f (x # xs) =
     (case f x of
        Inl e \<Rightarrow> Inl e
      | Inr y \<Rightarrow> (case map_result f xs of Inl e \<Rightarrow> Inl e | Inr ys \<Rightarrow> Inr (y # ys)))"

text \<open>\<open>np.where(y_ > 0.5, 1, 0)\<close>; a string cannot be compared with a number.\<close>

fun gt_half :: "scalar \<Rightarrow> error + nat" where
  "gt_half (SInt i) = Inr (if 1 / 2 < real_of_int i then 1 else 0)"
| "gt_half (SReal r) = Inr (if 1 / 2 < r then 1 else 0)"
| "gt_half (SStr s) = Inl (TypeError ''> not supported between str and float'')"

definition where_gt_half :: "scalar ndarray \<Rightarrow> error + nat ndarray" where
  "where_gt_half a =
     (case map_result gt_half (data a) of
        Inl e \<Rightarrow> Inl e
      | Inr bs \<Rightarrow> Inr (NDArray (shape a) bs))"

text \<open>\<open>1 - y_\<close>\<close>

fun one_minus1 :: "scalar \<Rightarrow> error + scalar" where
  "one_minus1 (SInt i) = Inr (SInt (1 - i))"
| "one_minus1 (SReal r) = Inr (SReal (1 - r))"
| "one_minus1 (SStr s) = Inl (TypeError ''- not supported between int and str'')"

definition one_minus :: "scalar ndarray \<Rightarrow> error + scalar ndarray" where
  "one_minus a =
     (case map_result one_minus1 (data a) of
        Inl e \<Rightarrow> Inl e
      | Inr xs \<Rightarrow> Inr (NDArray (shape a) xs))"

text \<open>
  \<open>y.astype("float64")\<close>; string elements are taken not to spell a number, so the cast
  of a string fails.
\<close>

fun to_float :: "scalar \<Rightarrow> error + scalar" where
  "to_float (SInt i) = Inr (SReal (real_of_int i))"
| "to_float (SReal r) = Inr (SReal r)"
| "to_float (SStr s) = Inl (ValueError ''could not convert string to float'')"

definition astype_float :: "scalar ndarray \<Rightarrow> error + scalar ndarray" where
  "astype_float a =
     (case map_result to_float (data a) of
        Inl e \<Rightarrow> Inl e
      | Inr xs \<Rightarrow> Inr (NDArray (shape a) xs))"

text \<open>
  \<open>np.argmax(a, axis=1)\<close>: along the second axis, the first position of the largest
  entry. The scan keeps the earliest maximum.
\<close>

fun argmax_from :: "'a::linorder \<Rightarrow> nat \<Rightarrow> nat \<Rightarrow> 'a list \<Rightarrow> nat" where
  "argmax_from best bi i [] = bi"
| "argmax_from best bi i (x # xs) =
     (if best < x then argmax_from x i (Suc i) xs else argmax_from best bi (Suc i) xs)"

definition argmax_list :: "'a::linorder list \<Rightarrow> nat" where
  "argmax_list xs = (case xs of [] \<Rightarrow> 0 | x # rest \<Rightarrow> argmax_from x 0 1 rest)"

definition argmax_axis1 :: "'a::linorder ndarray \<Rightarrow> error + nat ndarray" where
  "argmax_axis1 a =
     (case shape a of
        n # m # rest \<Rightarrow>
          if m = 0 then Inl (ValueError ''attempt to get argmax of an empty sequence'')
          else
            (let r = prod_list rest
             in Inr (NDArray (n # rest)
                  (concat (map (\<lambda>i. map (\<lambda>t. argmax_list
                                   (map (\<lambda>j. data a ! ((i * m + j) * r + t)) [0..<m]))
                                 [0..<r])
                          [0..<n]))))
      | _ \<Rightarrow> Inl (AxisError ''axis 1 is out of bounds''))"

text \<open>\<open>classes_[idx]\<close>: indexing the first axis of \<open>classes_\<close> with an array of positions.\<close>

definition take_classes :: "'a ndarray \<Rightarrow> nat ndarray \<Rightarrow> error + 'a ndarray" where
  "take_classes classes idx =
     (case shape classes of
        [] \<Rightarrow> Inl (IndexError ''too many indices for array'')
      | n # rest \<Rightarrow>
          if list_all (\<lambda>k. k < n) (data idx)
            then Inr (NDArray (shape idx @ rest) (concat (map (row_chunk classes) (data idx))))
          else Inl (IndexError ''index is out of bounds''))"

section \<open>The estimator and its collaborators\<close>

text \<open>
  The two estimator classes of the module, \<open>KerasClassifier\<close> and \<open>KerasRegressor\<close>;
  \<open>BaseWrapper\<close> itself is not meant to be instantiated, and its methods appear below
  as the functions the subclasses inherit or call through \<open>super()\<close>.
\<close>

datatype kind = ClassifierKind | RegressorKind

text \<open>The callables whose declared parameters the router inspects.\<close>

datatype callable =
    SelfCall
  | ClonePrebuilt
  | PlainFunction fn
  | ObjectCall fn
  | ModelFit model
  | ModelEvaluate model
  | ModelPredict model

text \<open>What the model's \<open>fit\<close> receives as \<open>y\<close>: a bare array or a tuple of arrays.\<close>

datatype fit_y = Bare "scalar ndarray" | Blocks "scalar ndarray list"

text \<open>What the model's \<open>predict\<close> returns: an array, or a list of arrays for several outputs.\<close>

datatype model_output = OutArr "scalar ndarray" | OutList "scalar ndarray list"

text \<open>Every invocation of a collaborator is recorded, in order of occurrence.\<close>

datatype event =
    BuildCall callable "pyval dict"
  | FitCall model pyval fit_y "pyval dict"
  | PredictCall model pyval "pyval dict"

text \<open>
  An estimator instance: its class (\<open>est_kind\<close>, the signature of \<open>__call__\<close> when the
  class implements it, the named parameters of \<open>__init__\<close>), its attribute dictionary
  \<open>self.__dict__\<close>, the class-level list \<open>_legal_params_fns\<close> and the record of
  collaborator calls.
\<close>

record estimator =
  est_kind :: kind
  call_sig :: "signature option"
  init_params :: "string list"
  self_dict :: "pyval dict"
  legal_params_fns :: "callable list"
  trace :: "event list"

text \<open>
  The external collaborators: scikit-learn's validators and target-type inference, the
  build callable, the Keras model's operations and utilities, the scoring function, and
  the \<open>get_params\<close>/\<open>set_params\<close> of nested components.
\<close>

record ext =
  type_of_target :: "scalar ndarray \<Rightarrow> string"
  check_X_y :: "pyval \<Rightarrow> scalar ndarray \<Rightarrow> error + pyval \<times> scalar ndarray"
  check_array :: "pyval \<Rightarrow> error + pyval"
  check_array_float :: "scalar ndarray \<Rightarrow> error + scalar ndarray"
  check_sample_weight :: "pyval \<Rightarrow> pyval \<Rightarrow> error + pyval"
  call_build :: "callable \<Rightarrow> pyval dict \<Rightarrow> error + model"
  clone_model :: "model \<Rightarrow> model"
  compile_model :: "model \<Rightarrow> nat \<Rightarrow> model"
  model_fit :: "model \<Rightarrow> pyval \<Rightarrow> fit_y \<Rightarrow> pyval dict \<Rightarrow> error + pyval"
  model_predict :: "model \<Rightarrow> pyval \<Rightarrow> pyval dict \<Rightarrow> error + model_output"
  to_categorical :: "scalar ndarray \<Rightarrow> error + scalar ndarray"
  scorer :: "scalar ndarray \<Rightarrow> scalar ndarray \<Rightarrow> pyval \<Rightarrow> error + real"
  nested_get_params :: "pyval \<Rightarrow> pyval dict option"
  nested_set_params :: "pyval \<Rightarrow> pyval dict \<Rightarrow> error + pyval"

subsection \<open>Attribute access\<close>

text \<open>The data attributes the classes themselves define.\<close>

definition class_attr :: "estimator \<Rightarrow> string \<Rightarrow> pyval option" where
  "class_attr st name =
     (if name = ''_sk_params'' then Some PNone
      else if name = ''is_fitted_'' then Some (PBool False)
      else if name = ''n_outputs_'' \<and> est_kind st = RegressorKind then Some PNone
      else None)"

definition py_getattr :: "estimator \<Rightarrow> string \<Rightarrow> error + pyval" where
  "py_getattr st name =
     (case map_of (self_dict st) name of
        Some v \<Rightarrow> Inr v
      | None \<Rightarrow> (case class_attr st name of
                   Some v \<Rightarrow> Inr v
                 | None \<Rightarrow> Inl (AttributeError name)))"

definition py_setattr :: "string \<Rightarrow> pyval \<Rightarrow> estimator \<Rightarrow> estimator" where
  "py_setattr name v st = st\<lparr>self_dict := dict_set name v (self_dict st)\<rparr>"

text \<open>
  \<open>for attr_name, attr_val in extra_args.items(): setattr(self, attr_name, attr_val)\<close>,
  as \<open>fit\<close> stores the attributes pre-processing derived.
\<close>

definition store_extra_args :: "pyval dict \<Rightarrow> estimator \<Rightarrow> estimator" where
  "store_extra_args extra_args st = fold (\<lambda>(name, v). py_setattr name v) extra_args st"

text \<open>\<open>hasattr(self, "__call__")\<close>\<close>

definition has_call :: "estimator \<Rightarrow> bool" where
  "has_call st = (call_sig st \<noteq> None \<or> map_of (self_dict st) ''__call__'' \<noteq> None)"

text \<open>\<open>self.model_\<close>, on which \<open>fit\<close>, \<open>predict\<close> and \<open>loss\<close> are looked up.\<close>

definition get_model :: "estimator \<Rightarrow> error + model" where
  "get_model st =
     (case py_getattr st ''model_'' of
        Inl e \<Rightarrow> Inl e
      | Inr (PModel m) \<Rightarrow> Inr m
      | Inr v \<Rightarrow> Inl (AttributeError ''fit''))"

text \<open>Truth value of an object, as \<open>not self.is_fitted_\<close> takes it.\<close>

fun truthy :: "pyval \<Rightarrow> bool" where
  "truthy PNone = False"
| "truthy (PBool b) = b"
| "truthy (PInt i) = (i \<noteq> 0)"
| "truthy (PReal r) = (r \<noteq> 0)"
| "truthy (PStr s) = (s \<noteq> [])"
| "truthy (PSeq xs) = (xs \<noteq> [])"
| "truthy v = True"

text \<open>\<open>v == k\<close> for an integer \<open>k\<close>\<close>

fun py_eq_int :: "pyval \<Rightarrow> int \<Rightarrow> bool" where
  "py_eq_int (PInt i) k = (i = k)"
| "py_eq_int (PReal r) k = (r = real_of_int k)"
| "py_eq_int (PBool b) k = ((if b then 1 else 0) = k)"
| "py_eq_int v k = False"

text \<open>The declared parameters of a callable.\<close>

definition clone_prebuilt_sig :: signature where
  "clone_prebuilt_sig =
     \<lparr>sig_args = [''build_fn''], sig_kwonlyargs = [], sig_varargs = None, sig_varkw = None\<rparr>"

definition empty_sig :: signature where
  "empty_sig = \<lparr>sig_args = [], sig_kwonlyargs = [], sig_varargs = None, sig_varkw = None\<rparr>"

fun sig_of :: "estimator \<Rightarrow> callable \<Rightarrow> signature" where
  "sig_of st SelfCall = (case call_sig st of Some sg \<Rightarrow> sg | None \<Rightarrow> empty_sig)"
| "sig_of st ClonePrebuilt = clone_prebuilt_sig"
| "sig_of st (PlainFunction f) = fn_sig f"
| "sig_of st (ObjectCall f) = fn_sig f"
| "sig_of st (ModelFit m) = fit_sig m"
| "sig_of st (ModelEvaluate m) = (case evaluate_sig m of Some sg \<Rightarrow> sg | None \<Rightarrow> empty_sig)"
| "sig_of st (ModelPredict m) = predict_sig m"

section \<open>Parameter routing\<close>

text \<open>
  \<open>BaseWrapper._filter_params\<close>. The pool is \<open>params_to_check or self.__dict__\<close>:
  an absent pool and an empty one are both falsy, so either falls back to the instance
  attributes.
\<close>

definition pool_or :: "'v dict option \<Rightarrow> 'v dict \<Rightarrow> 'v dict" where
  "pool_or params_to_check attrs =
     (case params_to_check of
        None \<Rightarrow> attrs
      | Some p \<Rightarrow> if p = [] then attrs else p)"

definition filter_step :: "signature \<Rightarrow> string \<times> 'v \<Rightarrow> 'v dict \<Rightarrow> 'v dict" where
  "filter_step fn = (\<lambda>(name, value) res. if has_arg fn name then dict_set name value res else res)"

definition filter_params :: "'v dict \<Rightarrow> signature \<Rightarrow> 'v dict option \<Rightarrow> 'v dict" where
  "filter_params attrs fn params_to_check =
     fold (filter_step fn) (pool_or params_to_check attrs) []"

section \<open>Build-spec resolution and model construction\<close>

text \<open>
  The capability probes of \<open>_check_build_fn\<close>: \<open>isinstance(build_fn, Model)\<close>,
  \<open>inspect.isfunction(build_fn)\<close>, and \<open>callable(build_fn)\<close> together with a
  \<open>__call__\<close> on its class. A model instance and a plain function are callable too,
  which is why the order of the probes matters.
\<close>

fun is_model_instance :: "pyval \<Rightarrow> bool" where
  "is_model_instance (PModel m) = True"
| "is_model_instance v = False"

fun is_function :: "pyval \<Rightarrow> bool" where
  "is_function (PFunction f) = True"
| "is_function v = False"

fun is_callable_object :: "pyval \<Rightarrow> bool" where
  "is_callable_object (PModel m) = True"
| "is_callable_object (PFunction f) = True"
| "is_callable_object (PCallableObj f) = True"
| "is_callable_object v = False"

text \<open>The function behind a function value or a callable object (a default elsewhere).\<close>

fun the_fn :: "pyval \<Rightarrow> fn" where
  "the_fn (PFunction f) = f"
| "the_fn (PCallableObj f) = f"
| "the_fn v = \<lparr>fn_id = 0, fn_sig = empty_sig\<rparr>"

text \<open>\<open>BaseWrapper._check_build_fn\<close>\<close>

definition check_build_fn :: "estimator \<Rightarrow> pyval \<Rightarrow> estimator \<times> (error + callable)" where
  "check_build_fn st build_fn =
     (let r =
        (if build_fn = PNone then
           (if \<not> has_call st then Inl ValueError_MustImplementCall else Inr SelfCall)
         else if is_model_instance build_fn then Inr ClonePrebuilt
         else if is_function build_fn then
           (if has_call st then Inl ValueError_CannotImplementCall
            else Inr (PlainFunction (the_fn build_fn)))
         else if is_callable_object build_fn then
           (if has_call st then Inl ValueError_CannotImplementCall
            else Inr (ObjectCall (the_fn build_fn)))
         else Inl ValueError_BuildFnNotCallable)
      in case r of
           Inl e \<Rightarrow> (st, Inl e)
         | Inr final_build_fn \<Rightarrow>
             (st\<lparr>legal_params_fns := legal_params_fns st @ [final_build_fn]\<rparr>,
              Inr final_build_fn))"

text \<open>\<open>_clone_prebuilt_model\<close>\<close>

definition clone_prebuilt_model :: "ext \<Rightarrow> model \<Rightarrow> error + model" where
  "clone_prebuilt_model x build_fn =
     (let model = clone_model x build_fn
      in case training_config build_fn of
           Some tc \<Rightarrow> Inr (compile_model x model tc)
         | None \<Rightarrow> Inl (ValueError_NotCompiled build_fn))"

text \<open>
  \<open>final_build_fn(**build_args)\<close>. Only \<open>_clone_prebuilt_model\<close> is code of the module;
  every other callable, and the cloning of something that is not a model, is the
  collaborator's business.
\<close>

definition call_final_build_fn :: "ext \<Rightarrow> callable \<Rightarrow> pyval dict \<Rightarrow> error + model" where
  "call_final_build_fn x f build_args =
     (case f of
        ClonePrebuilt \<Rightarrow>
          (case map_of build_args ''build_fn'' of
             None \<Rightarrow> Inl (TypeError ''missing 1 required positional argument: build_fn'')
           | Some (PModel m) \<Rightarrow> clone_prebuilt_model x m
           | Some v \<Rightarrow> call_build x f build_args)
      | _ \<Rightarrow> call_build x f build_args)"

text \<open>The functions of \<open>KNOWN_KERAS_FN_NAMES\<close> that the model has.\<close>

definition known_fns :: "model \<Rightarrow> callable list" where
  "known_fns m =
     [ModelFit m] @ (case evaluate_sig m of Some sg \<Rightarrow> [ModelEvaluate m] | None \<Rightarrow> [])
       @ [ModelPredict m]"

text \<open>\<open>BaseWrapper._build_keras_model\<close>\<close>

definition build_keras_model ::
  "ext \<Rightarrow> estimator \<Rightarrow> pyval \<Rightarrow> pyval \<Rightarrow> pyval \<Rightarrow> pyval dict \<Rightarrow> estimator \<times> (error + model)" where
  "build_keras_model x st X y sample_weight kwargs =
     (case py_getattr st ''build_fn'' of
        Inl e \<Rightarrow> (st, Inl e)
      | Inr bf \<Rightarrow>
         (case check_build_fn st bf of
            (st1, Inl e) \<Rightarrow> (st1, Inl e)
          | (st1, Inr final_build_fn) \<Rightarrow>
             (let sg = sig_of st1 final_build_fn;
                  model_args = filter_params (self_dict st1) sg None;
                  sample_weight_arg =
                    filter_params (self_dict st1) sg (Some [(''sample_weight'', sample_weight)]);
                  X_y_args = filter_params (self_dict st1) sg (Some [(''X'', X), (''y'', y)]);
                  kwargs1 = filter_params (self_dict st1) sg (Some kwargs);
                  build_args =
                    dict_merge (dict_merge (dict_merge model_args X_y_args) sample_weight_arg)
                      kwargs1;
                  st2 = st1\<lparr>trace := trace st1 @ [BuildCall final_build_fn build_args]\<rparr>
              in case call_final_build_fn x final_build_fn build_args of
                   Inl e \<Rightarrow> (st2, Inl e)
                 | Inr m \<Rightarrow>
                     (st2\<lparr>legal_params_fns := legal_params_fns st2 @ known_fns m\<rparr>, Inr m))))"

section \<open>Label shape negotiation\<close>

text \<open>Sequencing of fallible steps: the first error ends the computation.\<close>

fun bind_res :: "error + 'a \<Rightarrow> ('a \<Rightarrow> error + 'b) \<Rightarrow> error + 'b" where
  "bind_res (Inl e) f = Inl e"
| "bind_res (Inr v) f = f v"

subsection \<open>Pre-processing\<close>

text \<open>\<open>BaseWrapper._pre_process_y\<close>\<close>

definition base_pre_process_y :: "'a ndarray \<Rightarrow> 'a ndarray \<times> pyval dict" where
  "base_pre_process_y y = ((if ndim y = 1 then reshape_column y else y), [])"

text \<open>The tail of \<open>KerasClassifier._pre_process_y\<close>: the attributes derived from the vocabularies.\<close>

definition classifier_extra_args ::
  "scalar ndarray list \<Rightarrow> nat \<Rightarrow> string \<Rightarrow> pyval dict" where
  "classifier_extra_args classes n_outputs_keras cls_type =
     (if length classes = 1 then
        [(''classes_'', PArr (hd classes)),
         (''n_outputs_'', PInt 1),
         (''n_outputs_keras_'', PInt (int n_outputs_keras)),
         (''n_classes_'', PInt (int (prod_list (shape (hd classes))))),
         (''cls_type_'', PStr cls_type)]
      else
        [(''classes_'', PSeq (map PArr classes)),
         (''n_outputs_'', PInt (int (length classes))),
         (''n_outputs_keras_'', PInt (int n_outputs_keras)),
         (''n_classes_'', PSeq (map (\<lambda>c. PInt (int (hd (shape c)))) classes)),
         (''cls_type_'', PStr cls_type)])"

text \<open>\<open>KerasClassifier._pre_process_y\<close>\<close>

definition classifier_pre_process_y ::
  "ext \<Rightarrow> scalar ndarray \<Rightarrow> error + scalar ndarray list \<times> pyval dict" where
  "classifier_pre_process_y x y0 =
     (let y = fst (base_pre_process_y y0);
          cls_type = type_of_target x y
      in bind_res (shape1 y) (\<lambda>n_outputs.
           if cls_type = ''binary'' then
             (let classes = np_unique y
              in Inr ([searchsorted classes y], classifier_extra_args [classes] 1 cls_type))
           else if cls_type = ''multiclass'' then
             (let classes = np_unique y
              in Inr ([searchsorted classes y], classifier_extra_args [classes] 1 cls_type))
           else if cls_type = ''multilabel-indicator'' then
             (let classes = replicate n_outputs (NDArray [2] [SInt 0, SInt 1])
              in bind_res (split_columns y) (\<lambda>ys.
                   Inr (ys, classifier_extra_args classes (length ys) cls_type)))
           else if cls_type = ''multiclass-multioutput'' then
             bind_res (split_columns y) (\<lambda>ys.
               Inr (ys, classifier_extra_args (map np_unique ys) (length ys) cls_type))
           else Inl (ValueError_UnknownLabelType cls_type)))"

text \<open>\<open>KerasRegressor._pre_process_y\<close>\<close>

definition regressor_pre_process_y ::
  "scalar ndarray \<Rightarrow> error + scalar ndarray list \<times> pyval dict" where
  "regressor_pre_process_y y0 =
     (let y = fst (base_pre_process_y y0)
      in bind_res (shape1 y) (\<lambda>n_outputs.
           Inr ([y], [(''n_outputs_'', PInt (int n_outputs)), (''n_outputs_keras_'', PInt 1)])))"

definition pre_process_y ::
  "ext \<Rightarrow> estimator \<Rightarrow> scalar ndarray \<Rightarrow> error + scalar ndarray list \<times> pyval dict" where
  "pre_process_y x st y =
     (case est_kind st of
        ClassifierKind \<Rightarrow> classifier_pre_process_y x y
      | RegressorKind \<Rightarrow> regressor_pre_process_y y)"

text \<open>\<open>BaseWrapper._pre_process_X\<close>\<close>

definition pre_process_X :: "pyval \<Rightarrow> pyval \<times> pyval dict" where
  "pre_process_X X = (X, [])"

subsection \<open>Output-count compatibility\<close>

text \<open>\<open>BaseWrapper._check_output_model_compatibility\<close>\<close>

definition base_check_output_model_compatibility ::
  "estimator \<Rightarrow> scalar ndarray list \<Rightarrow> error + fit_y" where
  "base_check_output_model_compatibility st y =
     bind_res (py_getattr st ''n_outputs_keras_'') (\<lambda>n_outputs_keras.
       if \<not> py_eq_int n_outputs_keras (int (length y))
         then Inl (RuntimeError_OutputMismatch n_outputs_keras (length y))
       else if length y = 1 then Inr (Bare (hd y))
       else Inr (Blocks (map squeeze y)))"

text \<open>
  \<open>is_categorical_crossentropy\<close> of Keras, on the losses as the model record names them.
\<close>

definition is_categorical_crossentropy :: "loss \<Rightarrow> bool" where
  "is_categorical_crossentropy l = (l = CategoricalCrossentropy)"

text \<open>\<open>[self.model_.loss] * self.n_outputs_\<close>\<close>

fun repeat_loss :: "loss \<Rightarrow> pyval \<Rightarrow> error + loss list" where
  "repeat_loss l (PInt k) = Inr (replicate (nat k) l)"
| "repeat_loss l (PBool b) = Inr (replicate (if b then 1 else 0) l)"
| "repeat_loss l v = Inl (TypeError ''cannot multiply sequence by non-int'')"

text \<open>
  The loop of \<open>KerasClassifier._check_output_model_compatibility\<close> over
  \<open>enumerate(zip(losses, y))\<close>, replacing \<open>y[i]\<close> in place.
\<close>

fun encode_loop ::
  "ext \<Rightarrow> nat \<Rightarrow> (loss \<times> scalar ndarray) list \<Rightarrow> scalar ndarray list \<Rightarrow> error + scalar ndarray list" where
  "encode_loop x i [] y = Inr y"
| "encode_loop x i ((l, y_i) # rest) y =
     (if is_categorical_crossentropy l then
        bind_res (if ndim y_i = 1 then Inr True
                  else bind_res (shape1 y_i) (\<lambda>m. Inr (m = 1))) (\<lambda>single.
          if single then
            bind_res (to_categorical x y_i) (\<lambda>c. encode_loop x (Suc i) rest (y[i := c]))
          else encode_loop x (Suc i) rest y)
      else encode_loop x (Suc i) rest y)"

text \<open>
  The losses the loop pairs with the blocks: \<open>self.model_.loss\<close> when it is a list,
  else that loss once per output.
\<close>

definition model_losses :: "estimator \<Rightarrow> model \<Rightarrow> error + loss list" where
  "model_losses st m =
     (case model_loss m of
        LossList ls \<Rightarrow> Inr ls
      | LossSingle l \<Rightarrow> bind_res (py_getattr st ''n_outputs_'') (repeat_loss l))"

text \<open>\<open>KerasClassifier._check_output_model_compatibility\<close>\<close>

definition classifier_check_output_model_compatibility ::
  "ext \<Rightarrow> estimator \<Rightarrow> scalar ndarray list \<Rightarrow> error + fit_y" where
  "classifier_check_output_model_compatibility x st y =
     bind_res (get_model st) (\<lambda>m.
       bind_res (model_losses st m) (\<lambda>losses.
         bind_res (encode_loop x 0 (zip losses y) y)
           (base_check_output_model_compatibility st)))"

definition check_output_model_compatibility ::
  "ext \<Rightarrow> estimator \<Rightarrow> scalar ndarray list \<Rightarrow> error + fit_y" where
  "check_output_model_compatibility x st y =
     (case est_kind st of
        ClassifierKind \<Rightarrow> classifier_check_output_model_compatibility x st y
      | RegressorKind \<Rightarrow> base_check_output_model_compatibility st y)"

subsection \<open>Post-processing\<close>

text \<open>\<open>BaseWrapper._post_process_y\<close>; \<open>np.column_stack\<close> iterates what it is given.\<close>

definition base_post_process_y :: "model_output \<Rightarrow> error + scalar ndarray \<times> pyval dict" where
  "base_post_process_y out =
     bind_res (case out of OutArr a \<Rightarrow> np_iter a | OutList ys \<Rightarrow> Inr ys) (\<lambda>parts.
       bind_res (column_stack parts) (\<lambda>y. Inr (squeeze y, [])))"

text \<open>\<open>KerasRegressor._post_process_y\<close>; a list has no \<open>astype\<close>.\<close>

definition regressor_post_process_y :: "model_output \<Rightarrow> error + scalar ndarray \<times> pyval dict" where
  "regressor_post_process_y out =
     (case out of
        OutArr a \<Rightarrow> bind_res (astype_float a) (\<lambda>y. Inr (squeeze y, []))
      | OutList ys \<Rightarrow> Inl (AttributeError ''astype''))"

text \<open>
  The vocabularies \<open>zip(y, cls_)\<close> runs over: \<open>[self.classes_]\<close> for a single output,
  else the items of \<open>self.classes_\<close>.
\<close>

fun py_items :: "pyval \<Rightarrow> error + pyval list" where
  "py_items (PSeq vs) = Inr vs"
| "py_items (PArr a) = bind_res (np_iter a) (\<lambda>rows. Inr (map PArr rows))"
| "py_items (PStr s) = Inr (map (\<lambda>c. PStr [c]) s)"
| "py_items v = Inl (TypeError ''object is not iterable'')"

text \<open>\<open>classes_[idx]\<close> for a vocabulary held in an attribute.\<close>

fun index_classes :: "pyval \<Rightarrow> nat ndarray \<Rightarrow> error + scalar ndarray" where
  "index_classes (PArr classes) idx = take_classes classes idx"
| "index_classes v idx = Inl (TypeError ''object is not subscriptable by an array'')"

definition nat_labels :: "nat ndarray \<Rightarrow> scalar ndarray" where
  "nat_labels a = NDArray (shape a) (map (\<lambda>k. SInt (int k)) (data a))"

text \<open>
  The loop of \<open>KerasClassifier._post_process_y\<close> over \<open>enumerate(zip(y, cls_))\<close>: it
  collects the class predictions and, for a single sigmoid column, rewrites \<open>y[i]\<close> into
  the two-column probabilities.
\<close>

fun post_loop ::
  "pyval \<Rightarrow> nat \<Rightarrow> (scalar ndarray \<times> pyval) list \<Rightarrow> scalar ndarray list \<Rightarrow> scalar ndarray list
     \<Rightarrow> error + scalar ndarray list \<times> scalar ndarray list" where
  "post_loop cls_type i [] y class_predictions = Inr (y, class_predictions)"
| "post_loop cls_type i ((y_i, classes) # rest) y class_predictions =
     (if cls_type = PStr ''binary'' then
        bind_res (shape1 y_i) (\<lambda>m.
          if m = 1 then
            bind_res (where_gt_half y_i) (\<lambda>idx.
            bind_res (index_classes classes idx) (\<lambda>pred.
            bind_res (one_minus y_i) (\<lambda>neg.
            bind_res (concatenate1 [neg, y_i]) (\<lambda>two.
              post_loop cls_type (Suc i) rest (y[i := two]) (class_predictions @ [pred])))))
          else
            bind_res (where_gt_half y_i) (\<lambda>w.
            bind_res (argmax_axis1 w) (\<lambda>idx.
            bind_res (index_classes classes idx) (\<lambda>pred.
              post_loop cls_type (Suc i) rest y (class_predictions @ [pred])))))
      else if cls_type = PStr ''multiclass'' then
        bind_res (argmax_axis1 y_i) (\<lambda>idx.
        bind_res (index_classes classes idx) (\<lambda>pred.
          post_loop cls_type (Suc i) rest y (class_predictions @ [pred])))
      else if cls_type = PStr ''multilabel-indicator'' then
        bind_res (where_gt_half y_i) (\<lambda>w.
          post_loop cls_type (Suc i) rest y (class_predictions @ [nat_labels w]))
      else if cls_type = PStr ''multiclass-multioutput'' then
        bind_res (argmax_axis1 y_i) (\<lambda>idx.
        bind_res (index_classes classes idx) (\<lambda>pred.
          post_loop cls_type (Suc i) rest y (class_predictions @ [pred])))
      else Inl ValueError_UnknownTaskType)"

text \<open>\<open>KerasClassifier._post_process_y\<close>\<close>

definition classifier_post_process_y ::
  "estimator \<Rightarrow> model_output \<Rightarrow> error + scalar ndarray \<times> pyval dict" where
  "classifier_post_process_y st out =
     (let y = (case out of OutArr a \<Rightarrow> [a] | OutList ys \<Rightarrow> ys)
      in bind_res (py_getattr st ''n_outputs_'') (\<lambda>n_outputs.
         bind_res (py_getattr st ''classes_'') (\<lambda>classes.
         bind_res (py_getattr st ''cls_type_'') (\<lambda>cls_type.
         bind_res (if py_eq_int n_outputs 1 then Inr [classes] else py_items classes) (\<lambda>cls.
         bind_res (post_loop cls_type 0 (zip y cls) y []) (\<lambda>(y1, class_predictions).
         bind_res (column_stack y1) (\<lambda>probs.
         bind_res (column_stack class_predictions) (\<lambda>preds.
           Inr (squeeze preds, [(''class_probabilities'', PArr (squeeze probs))])))))))))"

definition post_process_y ::
  "estimator \<Rightarrow> model_output \<Rightarrow> error + scalar ndarray \<times> pyval dict" where
  "post_process_y st out =
     (case est_kind st of
        ClassifierKind \<Rightarrow> classifier_post_process_y st out
      | RegressorKind \<Rightarrow> regressor_post_process_y out)"

section \<open>Fitting the model\<close>

text \<open>The first statement of \<open>_fit_keras_model\<close>: the fit kwargs with the sample weights.\<close>

definition inject_sample_weight :: "pyval \<Rightarrow> pyval dict \<Rightarrow> pyval dict" where
  "inject_sample_weight sample_weight kwargs =
     (if sample_weight \<noteq> PNone then dict_set ''sample_weight'' sample_weight kwargs
      else kwargs)"

text \<open>
  \<open>BaseWrapper._fit_keras_model\<close>. The call \<open>self.model_.fit(x=X, y=y, **fit_args)\<close>
  cannot be made when \<open>fit_args\<close> names \<open>x\<close> or \<open>y\<close> again.
\<close>

definition fit_keras_model ::
  "ext \<Rightarrow> estimator \<Rightarrow> pyval \<Rightarrow> fit_y \<Rightarrow> pyval \<Rightarrow> pyval dict \<Rightarrow> estimator \<times> (error + unit)" where
  "fit_keras_model x st X y sample_weight kwargs =
     (let kwargs1 = inject_sample_weight sample_weight kwargs
      in case get_model st of
           Inl e \<Rightarrow> (st, Inl e)
         | Inr m \<Rightarrow>
            (let kwargs2 = filter_params (self_dict st) (fit_sig m) (Some kwargs1)
             in if sample_weight \<noteq> PNone \<and> ''sample_weight'' \<notin> set (dict_keys kwargs2)
                  then (st, Inl (ValueError_SampleWeightUnsupported m))
                else
                  (let fit_args =
                         dict_merge (filter_params (self_dict st) (fit_sig m) None) kwargs2
                   in if ''x'' \<in> set (dict_keys fit_args) \<or> ''y'' \<in> set (dict_keys fit_args)
                        then (st, Inl (TypeError ''got multiple values for keyword argument''))
                      else
                        (let st1 = st\<lparr>trace := trace st @ [FitCall m X y fit_args]\<rparr>
                         in case model_fit x m X y fit_args of
                              Inl e \<Rightarrow> (st1, Inl e)
                            | Inr h \<Rightarrow>
                                (py_setattr ''is_fitted_'' (PBool True)
                                   (py_setattr ''history_'' h st1),
                                 Inr ())))))"

section \<open>The estimator facade\<close>

text \<open>\<open>BaseWrapper.fit\<close>\<close>

definition base_fit ::
  "ext \<Rightarrow> estimator \<Rightarrow> pyval \<Rightarrow> scalar ndarray \<Rightarrow> pyval \<Rightarrow> pyval dict \<Rightarrow> estimator \<times> (error + unit)" where
  "base_fit x st X0 y0 sample_weight0 kwargs =
     (case check_X_y x X0 y0 of
        Inl e \<Rightarrow> (st, Inl e)
      | Inr (X1, y1) \<Rightarrow>
     (case check_array x X1 of
        Inl e \<Rightarrow> (st, Inl e)
      | Inr X2 \<Rightarrow>
     (case (if sample_weight0 \<noteq> PNone then check_sample_weight x sample_weight0 X2
            else Inr sample_weight0) of
        Inl e \<Rightarrow> (st, Inl e)
      | Inr sample_weight \<Rightarrow>
     (let X3 = fst (pre_process_X X2)
      in case pre_process_y x st y1 of
           Inl e \<Rightarrow> (st, Inl e)
         | Inr (y2, extra_args) \<Rightarrow>
        (let st1 = store_extra_args extra_args st
         in case build_keras_model x st1 X3 (PSeq (map PArr y2)) sample_weight kwargs of
              (st2, Inl e) \<Rightarrow> (st2, Inl e)
            | (st2, Inr m) \<Rightarrow>
           (let st3 = py_setattr ''model_'' (PModel m) st2
            in case check_output_model_compatibility x st3 y2 of
                 Inl e \<Rightarrow> (st3, Inl e)
               | Inr y3 \<Rightarrow> fit_keras_model x st3 X3 y3 sample_weight kwargs))))))"

text \<open>\<open>fit\<close> as each class has it: \<open>KerasRegressor.fit\<close> casts \<open>y\<close> to floats first.\<close>

definition fit ::
  "ext \<Rightarrow> estimator \<Rightarrow> pyval \<Rightarrow> scalar ndarray \<Rightarrow> pyval \<Rightarrow> pyval dict \<Rightarrow> estimator \<times> (error + unit)" where
  "fit x st X y sample_weight kwargs =
     (case est_kind st of
        ClassifierKind \<Rightarrow> base_fit x st X y sample_weight kwargs
      | RegressorKind \<Rightarrow>
          (case check_array_float x y of
             Inl e \<Rightarrow> (st, Inl e)
           | Inr y1 \<Rightarrow> base_fit x st X y1 sample_weight kwargs))"

text \<open>
  The part \<open>predict\<close> and \<open>predict_proba\<close> share: the fitted check, the validation of
  \<open>X\<close>, the routing of the predict arguments and the model's \<open>predict\<close>.
\<close>

definition run_predict ::
  "ext \<Rightarrow> estimator \<Rightarrow> pyval \<Rightarrow> pyval dict \<Rightarrow> estimator \<times> (error + model_output)" where
  "run_predict x st X kwargs =
     (case py_getattr st ''is_fitted_'' of
        Inl e \<Rightarrow> (st, Inl e)
      | Inr fitted \<Rightarrow>
          if \<not> truthy fitted then (st, Inl NotFittedError)
          else
            (case check_array x X of
               Inl e \<Rightarrow> (st, Inl e)
             | Inr X1 \<Rightarrow>
                (let X2 = fst (pre_process_X X1)
                 in case get_model st of
                      Inl e \<Rightarrow> (st, Inl e)
                    | Inr m \<Rightarrow>
                       (let kwargs1 = filter_params (self_dict st) (predict_sig m) (Some kwargs);
                            predict_args = filter_params (self_dict st) (predict_sig m) None;
                            pred_args = dict_merge predict_args kwargs1;
                            st1 = st\<lparr>trace := trace st @ [PredictCall m X2 pred_args]\<rparr>
                        in case model_predict x m X2 pred_args of
                             Inl e \<Rightarrow> (st1, Inl e)
                           | Inr out \<Rightarrow> (st1, Inr out)))))"

text \<open>\<open>BaseWrapper.predict\<close>\<close>

definition predict ::
  "ext \<Rightarrow> estimator \<Rightarrow> pyval \<Rightarrow> pyval dict \<Rightarrow> estimator \<times> (error + scalar ndarray)" where
  "predict x st X kwargs =
     (case run_predict x st X kwargs of
        (st1, Inl e) \<Rightarrow> (st1, Inl e)
      | (st1, Inr out) \<Rightarrow>
          (case post_process_y st1 out of
             Inl e \<Rightarrow> (st1, Inl e)
           | Inr (y, extra_args) \<Rightarrow> (st1, Inr y)))"

text \<open>
  \<open>KerasClassifier.predict_proba\<close>. Only the classifier defines the method: on a
  regressor the lookup of \<open>predict_proba\<close> itself raises \<open>AttributeError\<close>.
\<close>

definition predict_proba ::
  "ext \<Rightarrow> estimator \<Rightarrow> pyval \<Rightarrow> pyval dict \<Rightarrow> estimator \<times> (error + pyval)" where
  "predict_proba x st X kwargs =
     (case est_kind st of
        RegressorKind \<Rightarrow> (st, Inl (AttributeError ''predict_proba''))
      | ClassifierKind \<Rightarrow>
          (case run_predict x st X kwargs of
             (st1, Inl e) \<Rightarrow> (st1, Inl e)
           | (st1, Inr out) \<Rightarrow>
               (case classifier_post_process_y st1 out of
                  Inl e \<Rightarrow> (st1, Inl e)
                | Inr (y, extra_args) \<Rightarrow>
                    (case map_of extra_args ''class_probabilities'' of
                       None \<Rightarrow> (st1, Inl (KeyError ''class_probabilities''))
                     | Some probs \<Rightarrow> (st1, Inr probs)))))"

text \<open>
  \<open>BaseWrapper.score\<close>. \<open>KerasRegressor.score\<close> adds a warning about the loss, which
  changes neither the result nor the state.
\<close>

definition score ::
  "ext \<Rightarrow> estimator \<Rightarrow> pyval \<Rightarrow> scalar ndarray \<Rightarrow> pyval \<Rightarrow> pyval dict \<Rightarrow> estimator \<times> (error + real)" where
  "score x st X y sample_weight0 kwargs =
     (case (if sample_weight0 \<noteq> PNone then check_sample_weight x sample_weight0 X
            else Inr sample_weight0) of
        Inl e \<Rightarrow> (st, Inl e)
      | Inr sample_weight \<Rightarrow>
          (case pre_process_y x st y of
             Inl e \<Rightarrow> (st, Inl e)
           | Inr (y_blocks, extra_args) \<Rightarrow>
               (case predict x st X kwargs of
                  (st1, Inl e) \<Rightarrow> (st1, Inl e)
                | (st1, Inr y_pred) \<Rightarrow>
                    (case scorer x y y_pred sample_weight of
                       Inl e \<Rightarrow> (st1, Inl e)
                     | Inr r \<Rightarrow> (st1, Inr r)))))"

section \<open>Parameter bookkeeping\<close>

text \<open>The names in \<open>self._sk_params\<close>, a list of strings.\<close>

fun str_of :: "pyval \<Rightarrow> error + string" where
  "str_of (PStr s) = Inr s"
| "str_of v = Inl (TypeError ''expected str'')"

fun sk_param_names :: "pyval \<Rightarrow> error + string list" where
  "sk_param_names (PSeq vs) = map_result str_of vs"
| "sk_param_names v = Inl (TypeError ''can only concatenate list to list'')"

text \<open>\<open>BaseWrapper._get_param_names\<close>\<close>

definition get_param_names :: "estimator \<Rightarrow> error + string list" where
  "get_param_names st =
     bind_res (py_getattr st ''_sk_params'') (\<lambda>sk.
       if truthy sk then bind_res (sk_param_names sk) (\<lambda>names. Inr (sort (init_params st @ names)))
       else Inr (sort (init_params st)))"

text \<open>
  \<open>BaseWrapper.get_params\<close>: for each name the value, preceded by the parameters of a
  value that has a \<open>get_params\<close> of its own when \<open>deep\<close> is set.
\<close>

fun get_params_loop ::
  "ext \<Rightarrow> estimator \<Rightarrow> bool \<Rightarrow> string list \<Rightarrow> pyval dict \<Rightarrow> error + pyval dict" where
  "get_params_loop x st deep [] out = Inr out"
| "get_params_loop x st deep (key # keys) out =
     bind_res (py_getattr st key) (\<lambda>v.
       (let out1 = (case (if deep then nested_get_params x v else None) of
                      None \<Rightarrow> out
                    | Some deep_items \<Rightarrow>
                        fold (\<lambda>(k, val). dict_set (key @ ''__'' @ k) val) deep_items out)
        in get_params_loop x st deep keys (dict_set key v out1)))"

definition get_params :: "ext \<Rightarrow> estimator \<Rightarrow> bool \<Rightarrow> error + pyval dict" where
  "get_params x st deep =
     bind_res (get_param_names st) (\<lambda>names. get_params_loop x st deep names [])"

text \<open>\<open>key.partition("__")\<close>: the text before the first \<open>__\<close>, the separator if found, the rest.\<close>

fun partition_dunder :: "string \<Rightarrow> string \<times> string \<times> string" where
  "partition_dunder [] = ([], [], [])"
| "partition_dunder (c # cs) =
     (if c = CHR ''_'' \<and> (case cs of [] \<Rightarrow> False | d # ds \<Rightarrow> d = CHR ''_'')
        then ([], ''__'', tl cs)
      else (case partition_dunder cs of (a, delim, b) \<Rightarrow> (c # a, delim, b)))"

text \<open>\<open>nested_params[key][sub_key] = value\<close> on a \<open>defaultdict(dict)\<close>\<close>

definition nested_set :: "string \<Rightarrow> string \<Rightarrow> pyval \<Rightarrow> (string \<times> pyval dict) list \<Rightarrow> (string \<times> pyval dict) list" where
  "nested_set key sub_key v nested =
     AList.update key
       (dict_set sub_key v (case map_of nested key of None \<Rightarrow> [] | Some d \<Rightarrow> d)) nested"

text \<open>
  The first loop of \<open>BaseWrapper.set_params\<close>. An exception leaves the estimator as the
  loop has changed it so far, so the state is returned with the error.
\<close>

fun set_params_loop ::
  "(string \<times> pyval) list \<Rightarrow> estimator \<Rightarrow> pyval dict \<Rightarrow> (string \<times> pyval dict) list
     \<Rightarrow> estimator \<times> (error + pyval dict \<times> (string \<times> pyval dict) list)" where
  "set_params_loop [] st valid_params nested = (st, Inr (valid_params, nested))"
| "set_params_loop ((full_key, v) # rest) st valid_params nested =
     (case partition_dunder full_key of
        (key, delim, sub_key) \<Rightarrow>
          if key \<notin> set (dict_keys valid_params)
            then (st, Inl (ValueError_InvalidParameter key))
          else if delim \<noteq> []
            then set_params_loop rest st valid_params (nested_set key sub_key v nested)
          else set_params_loop rest (py_setattr key v st) (dict_set key v valid_params) nested)"

text \<open>
  The second loop: \<open>valid_params[key].set_params(**sub_params)\<close> changes the component
  in place; the attribute of that name refers to the same object, so it shows the change.
\<close>

fun set_nested_loop ::
  "ext \<Rightarrow> (string \<times> pyval dict) list \<Rightarrow> pyval dict \<Rightarrow> estimator \<Rightarrow> estimator \<times> (error + unit)" where
  "set_nested_loop x [] valid_params st = (st, Inr ())"
| "set_nested_loop x ((key, sub_params) # rest) valid_params st =
     (case map_of valid_params key of
        None \<Rightarrow> (st, Inl (KeyError key))
      | Some component \<Rightarrow>
          (case nested_set_params x component sub_params of
             Inl e \<Rightarrow> (st, Inl e)
           | Inr component1 \<Rightarrow>
               set_nested_loop x rest valid_params (py_setattr key component1 st)))"

text \<open>\<open>BaseWrapper.set_params\<close>\<close>

definition set_params :: "ext \<Rightarrow> estimator \<Rightarrow> pyval dict \<Rightarrow> estimator \<times> (error + unit)" where
  "set_params x st params =
     (if params = [] then (st, Inr ())
      else
        (case get_params x st True of
           Inl e \<Rightarrow> (st, Inl e)
         | Inr valid_params \<Rightarrow>
             (case set_params_loop params st valid_params [] of
                (st1, Inl e) \<Rightarrow> (st1, Inl e)
              | (st1, Inr (valid_params1, nested)) \<Rightarrow>
                  set_nested_loop x nested valid_params1 st1)))"

text \<open>
  \<open>BaseWrapper.__init__\<close>, for a class with the given \<open>__call__\<close> and \<open>__init__\<close>
  parameters and the current class-level list of legal-parameter functions.
\<close>

definition init ::
  "ext \<Rightarrow> kind \<Rightarrow> signature option \<Rightarrow> string list \<Rightarrow> callable list \<Rightarrow> pyval \<Rightarrow> pyval dict
     \<Rightarrow> error + estimator" where
  "init x k csig iparams legal build_fn sk_params =
     (let st0 = \<lparr>est_kind = k, call_sig = csig, init_params = iparams,
                 self_dict = [(''build_fn'', build_fn)], legal_params_fns = legal, trace = []\<rparr>;
          st1 = (if sk_params \<noteq> [] then
                   py_setattr ''_sk_params'' (PSeq (map (\<lambda>(name, v). PStr name) sk_params))
                     (fold (\<lambda>(name, v). py_setattr name v) sk_params st0)
                 else st0)
      in case get_params x st1 False of
           Inl e \<Rightarrow> Inl e
         | Inr params \<Rightarrow> Inr st1)"

section \<open>Model outputs that encode labels\<close>







section \<open>A concrete configuration\<close>

text \<open>
  Collaborators and an estimator to run the definitions on. The target-type inference
  renders scikit-learn's rules on the arrays above, and the one-hot expansion those of
  Keras; the validators accept what they are given, and the model's own operations
  return fixed results.
\<close>

fun is_integral :: "scalar \<Rightarrow> bool" where
  "is_integral (SInt i) = True"
| "is_integral (SReal r) = (real_of_int \<lfloor>r\<rfloor> = r)"
| "is_integral (SStr s) = False"

fun is_fractional :: "scalar \<Rightarrow> bool" where
  "is_fractional (SReal r) = (real_of_int \<lfloor>r\<rfloor> \<noteq> r)"
| "is_fractional v = False"

definition sk_type_of_target :: "scalar ndarray \<Rightarrow> string" where
  "sk_type_of_target y =
     (let labels = sort (remdups (data y));
          multi = (ndim y = 2 \<and> 1 < hd (tl (shape y)));
          suffix = (if multi then ''-multioutput'' else [])
      in if multi \<and> length labels < 3 \<and> list_all is_integral (data y)
           then ''multilabel-indicator''
         else if 2 < ndim y then ''unknown''
         else if ndim y = 2 \<and> hd (tl (shape y)) = 0 then ''unknown''
         else if list_ex is_fractional (data y) then ''continuous'' @ suffix
         else if 2 < length labels \<or> multi then ''multiclass'' @ suffix
         else ''binary'')"

fun class_index :: "scalar \<Rightarrow> nat option" where
  "class_index (SInt i) = (if 0 \<le> i then Some (nat i) else None)"
| "class_index v = None"

definition keras_to_categorical :: "scalar ndarray \<Rightarrow> error + scalar ndarray" where
  "keras_to_categorical y =
     (if data y = [] \<or> list_ex (\<lambda>v. class_index v = None) (data y)
        then Inl (ValueError ''to_categorical'')
      else
        (let ks = map (\<lambda>v. case class_index v of Some k \<Rightarrow> k | None \<Rightarrow> 0) (data y);
             num_classes = Suc (fold max ks 0);
             input_shape = (if 1 < ndim y \<and> last (shape y) = 1 then butlast (shape y)
                            else shape y)
         in Inr (NDArray (input_shape @ [num_classes])
                  (concat (map (\<lambda>k. map (\<lambda>j. SReal (if j = k then 1 else 0)) [0..<num_classes])
                             ks)))))"

definition keras_fit_sig :: signature where
  "keras_fit_sig =
     \<lparr>sig_args = [''self'', ''x'', ''y'', ''batch_size'', ''epochs'', ''verbose'', ''sample_weight''],
      sig_kwonlyargs = [], sig_varargs = None, sig_varkw = Some ''kwargs''\<rparr>"

definition keras_predict_sig :: signature where
  "keras_predict_sig =
     \<lparr>sig_args = [''self'', ''x'', ''batch_size'', ''verbose''],
      sig_kwonlyargs = [], sig_varargs = None, sig_varkw = None\<rparr>"

definition example_model :: model where
  "example_model =
     \<lparr>model_id = 1, fit_sig = keras_fit_sig, predict_sig = keras_predict_sig,
      evaluate_sig = None, model_loss = LossSingle (OtherLoss ''binary_crossentropy''),
      n_heads = 1, training_config = Some 0\<rparr>"

text \<open>What the example model predicts for two samples: one sigmoid column.\<close>

definition example_output :: "scalar ndarray" where
  "example_output = NDArray [2, 1] [SReal (7 / 10), SReal (1 / 5)]"

definition example_ext :: ext where
  "example_ext =
     \<lparr>type_of_target = sk_type_of_target,
      check_X_y = (\<lambda>X y. Inr (X, y)),
      check_array = (\<lambda>X. Inr X),
      check_array_float = astype_float,
      check_sample_weight = (\<lambda>w X. Inr w),
      call_build = (\<lambda>f args. Inr example_model),
      clone_model = (\<lambda>m. m),
      compile_model = (\<lambda>m tc. m),
      model_fit = (\<lambda>m X y args. Inr (PHistory 0)),
      model_predict = (\<lambda>m X args. Inr (OutArr example_output)),
      to_categorical = keras_to_categorical,
      scorer = (\<lambda>y y_pred w. Inr 1),
      nested_get_params = (\<lambda>v. None),
      nested_set_params = (\<lambda>v params. Inr v)\<rparr>"

text \<open>The same collaborators with a sample-weight validator that rejects what it is given.\<close>

definition rejecting_ext :: ext where
  "rejecting_ext =
     example_ext\<lparr>check_sample_weight := (\<lambda>w X. Inl (ValueError ''sample_weight''))\<rparr>"

text \<open>
  A classifier built as \<open>KerasClassifier(build_fn, epochs=1, batch_size=32)\<close> from a
  plain function declaring \<open>hidden\<close>.
\<close>

definition example_build_fn :: fn where
  "example_build_fn =
     \<lparr>fn_id = 7,
      fn_sig = \<lparr>sig_args = [''hidden''], sig_kwonlyargs = [], sig_varargs = None,
                sig_varkw = None\<rparr>\<rparr>"

definition example_classifier :: estimator where
  "example_classifier =
     \<lparr>est_kind = ClassifierKind, call_sig = None, init_params = [''build_fn''],
      self_dict = [(''build_fn'', PFunction example_build_fn), (''epochs'', PInt 1),
                   (''batch_size'', PInt 32),
                   (''_sk_params'', PSeq [PStr ''epochs'', PStr ''batch_size''])],
      legal_params_fns = [], trace = []\<rparr>"

text \<open>
  The same classifier after a fit to the labels \<open>["yes", "no", "yes", "no"]\<close>.
\<close>

definition example_fitted :: estimator where
  "example_fitted =
     \<lparr>est_kind = ClassifierKind, call_sig = None, init_params = [''build_fn''],
      self_dict = [(''build_fn'', PFunction example_build_fn), (''epochs'', PInt 1),
                   (''batch_size'', PInt 32),
                   (''_sk_params'', PSeq [PStr ''epochs'', PStr ''batch_size'']),
                   (''classes_'', PArr (NDArray [2] [SStr ''no'', SStr ''yes''])),
                   (''n_outputs_'', PInt 1), (''n_outputs_keras_'', PInt 1),
                   (''n_classes_'', PInt 2), (''cls_type_'', PStr ''binary''),
                   (''model_'', PModel example_model), (''history_'', PHistory 0),
                   (''is_fitted_'', PBool True)],
      legal_params_fns = [PlainFunction example_build_fn, ModelFit example_model,
                          ModelPredict example_model],
      trace = []\<rparr>"

text \<open>A model whose \<open>fit\<close> declares no \<open>sample_weight\<close>.\<close>

definition no_weight_model :: model where
  "no_weight_model = example_model\<lparr>fit_sig := keras_predict_sig\<rparr>"

text \<open>
  A regressor built from a pre-built model that was never compiled.
\<close>

definition uncompiled_model :: model where
  "uncompiled_model = example_model\<lparr>model_id := 2, training_config := None\<rparr>"

definition example_prebuilt :: estimator where
  "example_prebuilt =
     \<lparr>est_kind = RegressorKind, call_sig = None, init_params = [''build_fn''],
      self_dict = [(''build_fn'', PModel uncompiled_model)],
      legal_params_fns = [], trace = []\<rparr>"

text \<open>The fitted classifier with a model compiled with categorical crossentropy.\<close>

definition categorical_model :: model where
  "categorical_model = example_model\<lparr>model_id := 3, model_loss := LossSingle CategoricalCrossentropy\<rparr>"

definition example_categorical :: estimator where
  "example_categorical = py_setattr ''model_'' (PModel categorical_model) example_fitted"

text \<open>A block of class indices and its one-hot expansion.\<close>

definition example_index_block :: "scalar ndarray" where
  "example_index_block = NDArray [3, 1] [SInt 0, SInt 1, SInt 1]"

definition example_one_hot :: "scalar ndarray" where
  "example_one_hot = NDArray [3, 2] [SReal 1, SReal 0, SReal 0, SReal 1, SReal 0, SReal 1]"

text \<open>The multilabel indicator matrix \<open>[[1, 0], [0, 1], [1, 1]]\<close> and its two columns.\<close>

definition multilabel_y :: "scalar ndarray" where
  "multilabel_y = NDArray [3, 2] [SInt 1, SInt 0, SInt 0, SInt 1, SInt 1, SInt 1]"

definition multilabel_blocks :: "scalar ndarray list" where
  "multilabel_blocks = [NDArray [3, 1] [SInt 1, SInt 0, SInt 1], NDArray [3, 1] [SInt 0, SInt 1, SInt 1]]"








definition continuous_labels :: "scalar ndarray" where
  "continuous_labels = NDArray [2] [SReal (1 / 2), SReal (3 / 2)]"

section \<open>Supporting lemmas\<close>

subsection \<open>Dictionaries and the parameter filter\<close>

lemma map_of_dict_set: "map_of (dict_set k v d) = (map_of d)(k \<mapsto> v)"
  by (simp add: dict_set_def update_conv')

lemma keys_dict_set: "fst ` set (dict_set k v d) = insert k (fst ` set d)"
  by (simp add: dict_set_def dom_update)

lemma dict_set_append_new:
  "k \<notin> fst ` set d \<Longrightarrow> dict_set k v d = d @ [(k, v)]"
  unfolding dict_set_def by (induction d) auto

lemma fold_filter_step:
  "distinct (map fst (acc @ pool)) \<Longrightarrow>
   fold (filter_step fn) pool acc = acc @ filter (\<lambda>(n, v). has_arg fn n) pool"
proof (induction pool arbitrary: acc)
  case Nil
  then show ?case by simp
next
  case (Cons p pool)
  obtain n v where p: "p = (n, v)" by (cases p)
  show ?case
  proof (cases "has_arg fn n")
    case True
    from Cons.prems p have new: "n \<notin> fst ` set acc" by auto
    have d: "distinct (map fst ((acc @ [(n, v)]) @ pool))"
      using Cons.prems p by simp
    show ?thesis
      using Cons.IH [OF d] True p new
      by (simp add: filter_step_def dict_set_append_new)
  next
    case False
    have d: "distinct (map fst (acc @ pool))"
      using Cons.prems p by simp
    show ?thesis
      using Cons.IH [OF d] False p by (simp add: filter_step_def)
  qed
qed

lemma filter_params_nonempty_pool:
  "pool \<noteq> [] \<Longrightarrow> distinct (map fst pool) \<Longrightarrow>
   filter_params attrs fn (Some pool) = filter (\<lambda>(n, v). has_arg fn n) pool"
  using fold_filter_step [of "[]" pool fn]
  by (simp add: filter_params_def pool_or_def)

lemma filter_params_default:
  "distinct (map fst attrs) \<Longrightarrow>
   filter_params attrs fn None = filter (\<lambda>(n, v). has_arg fn n) attrs"
  using fold_filter_step [of "[]" attrs fn]
  by (simp add: filter_params_def pool_or_def)

lemma filter_params_keys_declared:
  "k \<in> fst ` set (filter_params attrs fn pool) \<Longrightarrow> has_arg fn k"
proof -
  have "k \<in> fst ` set (fold (filter_step fn) xs acc) \<Longrightarrow>
        k \<in> fst ` set acc \<or> has_arg fn k" for xs and acc :: "'a dict"
  proof (induction xs arbitrary: acc)
    case Nil
    then show ?case by simp
  next
    case (Cons p xs)
    obtain n v where p: "p = (n, v)" by (cases p)
    from Cons.prems p
    have "k \<in> fst ` set (filter_step fn (n, v) acc) \<or> has_arg fn k"
      using Cons.IH [of "filter_step fn (n, v) acc"] by simp
    then show ?case
      by (auto simp: filter_step_def keys_dict_set split: if_splits)
  qed
  from this [of "pool_or pool attrs" "[]"]
  show "k \<in> fst ` set (filter_params attrs fn pool) \<Longrightarrow> has_arg fn k"
    by (simp add: filter_params_def)
qed

lemma filter_params_keys_pool:
  "k \<in> fst ` set (filter_params attrs fn pool) \<Longrightarrow> k \<in> fst ` set (pool_or pool attrs)"
proof -
  have "k \<in> fst ` set (fold (filter_step fn) xs acc) \<Longrightarrow>
        k \<in> fst ` set acc \<or> k \<in> fst ` set xs" for xs and acc :: "'a dict"
  proof (induction xs arbitrary: acc)
    case Nil
    then show ?case by simp
  next
    case (Cons p xs)
    obtain n v where p: "p = (n, v)" by (cases p)
    from Cons.prems p
    have "k \<in> fst ` set (filter_step fn (n, v) acc) \<or> k \<in> fst ` set xs"
      using Cons.IH [of "filter_step fn (n, v) acc"] by simp
    then show ?case
      by (auto simp: p filter_step_def keys_dict_set split: if_splits)
  qed
  from this [of "pool_or pool attrs" "[]"]
  show "k \<in> fst ` set (filter_params attrs fn pool) \<Longrightarrow> k \<in> fst ` set (pool_or pool attrs)"
    by (simp add: filter_params_def)
qed

lemma map_of_rev_distinct:
  "distinct (map fst xs) \<Longrightarrow> map_of (rev xs) = map_of xs"
proof (induction xs)
  case Nil
  then show ?case by simp
next
  case (Cons p xs)
  then have "map_of xs (fst p) = None"
    by (simp add: map_of_eq_None_iff)
  with Cons show ?case
    by (auto simp: fun_eq_iff map_add_def split: option.splits)
qed

lemma map_of_dict_merge:
  "map_of (dict_merge base override) k =
     (case map_of (rev override) k of Some v \<Rightarrow> Some v | None \<Rightarrow> map_of base k)"
proof (induction override arbitrary: base)
  case Nil
  then show ?case by (simp add: dict_merge_def)
next
  case (Cons p override)
  obtain n v where p: "p = (n, v)" by (cases p)
  have "dict_merge base (p # override) = dict_merge (dict_set n v base) override"
    by (simp add: dict_merge_def p)
  then show ?case
    using Cons.IH [of "dict_set n v base"]
    by (auto simp: p map_of_dict_set map_add_def split: option.splits)
qed

lemma dict_merge_override:
  "distinct (map fst override) \<Longrightarrow> map_of override k = Some v \<Longrightarrow>
   map_of (dict_merge base override) k = Some v"
  by (simp add: map_of_dict_merge map_of_rev_distinct)

lemma keys_dict_merge:
  "fst ` set (dict_merge base override) = fst ` set base \<union> fst ` set override"
proof (induction override arbitrary: base)
  case Nil
  then show ?case by (simp add: dict_merge_def)
next
  case (Cons p override)
  obtain n v where p: "p = (n, v)" by (cases p)
  have "dict_merge base (p # override) = dict_merge (dict_set n v base) override"
    by (simp add: dict_merge_def p)
  then show ?case
    using Cons.IH [of "dict_set n v base"] by (auto simp: p keys_dict_set)
qed

lemma map_of_fold_filter_step:
  "map_of (fold (filter_step fn) xs acc) k =
     (if has_arg fn k
        then (case map_of (rev xs) k of Some v \<Rightarrow> Some v | None \<Rightarrow> map_of acc k)
      else map_of acc k)"
proof (induction xs arbitrary: acc)
  case Nil
  then show ?case by simp
next
  case (Cons p xs)
  obtain n v where p: "p = (n, v)" by (cases p)
  show ?case
    using Cons.IH [of "filter_step fn (n, v) acc"]
    by (auto simp: p filter_step_def map_of_dict_set map_add_def split: option.splits)
qed

lemma map_of_filter_params_pool:
  assumes "pool \<noteq> []" and "distinct (map fst pool)"
  shows "map_of (filter_params attrs fn (Some pool)) k =
           (if has_arg fn k then map_of pool k else None)"
  using assms
  by (simp add: filter_params_def pool_or_def map_of_fold_filter_step map_of_rev_distinct
      split: option.splits)

lemma distinct_filter_params:
  "distinct (map fst (filter_params attrs fn pool))"
proof -
  have "distinct (map fst acc) \<Longrightarrow> distinct (map fst (fold (filter_step fn) xs acc))"
    for xs and acc :: "'a dict"
  proof (induction xs arbitrary: acc)
    case Nil
    then show ?case by simp
  next
    case (Cons p xs)
    obtain n v where p: "p = (n, v)" by (cases p)
    have "distinct (map fst (filter_step fn (n, v) acc))"
      using Cons.prems by (simp add: filter_step_def dict_set_def distinct_update)
    then show ?case using Cons.IH p by simp
  qed
  from this [of "[]"] show ?thesis by (simp add: filter_params_def)
qed

subsection \<open>Fitting with sample weights\<close>

lemma trace_py_setattr: "trace (py_setattr n v st) = trace st"
  by (simp add: py_setattr_def)

lemma inject_sample_weight_props:
  "distinct (map fst kwargs) \<Longrightarrow> distinct (map fst (inject_sample_weight sw kwargs))"
  "n \<noteq> ''sample_weight'' \<Longrightarrow> map_of (inject_sample_weight sw kwargs) n = map_of kwargs n"
  "fst ` set (inject_sample_weight sw kwargs) \<subseteq> insert ''sample_weight'' (fst ` set kwargs)"
  "sw \<noteq> PNone \<Longrightarrow> map_of (inject_sample_weight sw kwargs) ''sample_weight'' = Some sw"
  by (auto simp: inject_sample_weight_def dict_set_def distinct_update update_conv' dom_update)

lemma fit_keras_model_unsupported:
  assumes "sample_weight \<noteq> PNone" and "get_model st = Inr m"
    and "\<not> has_arg (fit_sig m) ''sample_weight''"
  shows "fit_keras_model x st X y sample_weight kwargs =
           (st, Inl (ValueError_SampleWeightUnsupported m))"
proof -
  have "''sample_weight'' \<notin> fst ` set (filter_params (self_dict st) (fit_sig m)
          (Some (inject_sample_weight sample_weight kwargs)))"
    using assms(3) filter_params_keys_declared by blast
  then show ?thesis
    using assms(1,2) by (simp add: fit_keras_model_def dict_keys_def)
qed

lemma get_model_example_fitted: "get_model example_fitted = Inr example_model"
  by (simp add: get_model_def py_getattr_def example_fitted_def)

subsection \<open>Model construction from a pre-built model\<close>

lemma map_of_filter_params:
  "map_of (filter_params attrs fn pool) k =
     (if has_arg fn k then map_of (rev (pool_or pool attrs)) k else None)"
  by (simp add: filter_params_def map_of_fold_filter_step split: option.splits)

lemma fit_keras_model_call:
  assumes gm: "get_model st = Inr m"
    and sw: "sample_weight = PNone \<or> has_arg (fit_sig m) ''sample_weight''"
    and xy: "{''x'', ''y''} \<inter> (fst ` set kwargs \<union> fst ` set (self_dict st)) = {}"
  shows "trace (fst (fit_keras_model x st X y sample_weight kwargs))
           = trace st
               @ [FitCall m X y
                    (dict_merge (filter_params (self_dict st) (fit_sig m) None)
                       (filter_params (self_dict st) (fit_sig m)
                          (Some (inject_sample_weight sample_weight kwargs))))]"
proof -
  define kwargs1 where "kwargs1 = inject_sample_weight sample_weight kwargs"
  define kwargs2 where "kwargs2 = filter_params (self_dict st) (fit_sig m) (Some kwargs1)"
  define fit_args where
    "fit_args = dict_merge (filter_params (self_dict st) (fit_sig m) None) kwargs2"
  have k1: "fst ` set kwargs1 \<subseteq> insert ''sample_weight'' (fst ` set kwargs)"
    unfolding kwargs1_def by (rule inject_sample_weight_props(3))
  have k2: "fst ` set kwargs2 \<subseteq> insert ''sample_weight'' (fst ` set kwargs) \<union> fst ` set (self_dict st)"
  proof
    fix k assume "k \<in> fst ` set kwargs2"
    then have "k \<in> fst ` set (pool_or (Some kwargs1) (self_dict st))"
      unfolding kwargs2_def by (rule filter_params_keys_pool)
    then have "k \<in> fst ` set kwargs1 \<or> k \<in> fst ` set (self_dict st)"
      by (auto simp: pool_or_def split: if_splits)
    then show "k \<in> insert ''sample_weight'' (fst ` set kwargs) \<union> fst ` set (self_dict st)"
      using k1 by blast
  qed
  have k0: "fst ` set (filter_params (self_dict st) (fit_sig m) None) \<subseteq> fst ` set (self_dict st)"
    using filter_params_keys_pool [of _ "self_dict st" "fit_sig m" None]
    by (auto simp: pool_or_def)
  have keys: "fst ` set fit_args \<subseteq> insert ''sample_weight'' (fst ` set kwargs) \<union> fst ` set (self_dict st)"
    unfolding fit_args_def keys_dict_merge using k2 k0 by blast
  from xy have noxy: "''x'' \<notin> fst ` set fit_args" "''y'' \<notin> fst ` set fit_args"
    using keys by auto
  have inj: "sample_weight \<noteq> PNone \<Longrightarrow> ''sample_weight'' \<in> fst ` set kwargs2"
  proof -
    assume s: "sample_weight \<noteq> PNone"
    then have "map_of kwargs1 ''sample_weight'' = Some sample_weight"
      by (simp add: kwargs1_def inject_sample_weight_props(4))
    then have in1: "''sample_weight'' \<in> fst ` set kwargs1"
      by (metis domI dom_map_of_conv_image_fst)
    then have ne: "kwargs1 \<noteq> []" by auto
    from in1 have "''sample_weight'' \<in> fst ` set (rev kwargs1)" by simp
    then obtain v where "map_of (rev kwargs1) ''sample_weight'' = Some v"
      by (metis domD dom_map_of_conv_image_fst)
    moreover from s sw have "has_arg (fit_sig m) ''sample_weight''" by simp
    ultimately have "map_of kwargs2 ''sample_weight'' = Some v"
      using ne by (simp add: kwargs2_def map_of_filter_params pool_or_def)
    then show ?thesis by (metis domI dom_map_of_conv_image_fst)
  qed
  have "trace (fst (fit_keras_model x st X y sample_weight kwargs))
          = trace st @ [FitCall m X y fit_args]"
    using gm inj noxy
    by (auto simp: fit_keras_model_def Let_def dict_keys_def trace_py_setattr
        kwargs1_def [symmetric] kwargs2_def [symmetric] fit_args_def [symmetric]
        split: sum.splits)
  then show ?thesis by (simp add: fit_args_def kwargs2_def kwargs1_def)
qed

lemma build_args_prebuilt:
  assumes bf: "map_of d ''build_fn'' = Some (PModel m)" and dd: "distinct (map fst d)"
    and kw: "''build_fn'' \<notin> fst ` set kwargs"
  shows "map_of (dict_merge (dict_merge (dict_merge (filter_params d clone_prebuilt_sig None)
            (filter_params d clone_prebuilt_sig (Some [(''X'', X), (''y'', y)])))
            (filter_params d clone_prebuilt_sig (Some [(''sample_weight'', sw)])))
            (filter_params d clone_prebuilt_sig (Some kwargs))) ''build_fn'' = Some (PModel m)"
proof -
  have h: "has_arg clone_prebuilt_sig ''build_fn''"
    by (simp add: has_arg_def clone_prebuilt_sig_def)
  have r: "map_of (rev d) ''build_fn'' = Some (PModel m)"
    using bf dd by (simp add: map_of_rev_distinct)
  have k: "map_of (rev kwargs) ''build_fn'' = None"
    using kw by (simp add: map_of_eq_None_iff)
  have "map_of (rev (pool_or (Some kwargs) d)) ''build_fn'' \<in> {None, Some (PModel m)}"
    using r k by (simp add: pool_or_def)
  then show ?thesis
    using h r
    by (auto simp: map_of_dict_merge map_of_filter_params pool_or_def rev_rev_ident
        distinct_filter_params map_of_rev_distinct)
qed

subsection \<open>Prediction before fit\<close>

lemma run_predict_unfitted:
  assumes "map_of (self_dict st) ''is_fitted_'' = None
           \<or> map_of (self_dict st) ''is_fitted_'' = Some (PBool False)"
  shows "run_predict x st X kwargs = (st, Inl NotFittedError)"
  using assms by (auto simp: run_predict_def py_getattr_def class_attr_def)

subsection \<open>Setting parameters\<close>

lemma partition_dunder_plain:
  "fst (snd (partition_dunder k)) = [] \<Longrightarrow> fst (partition_dunder k) = k"
  by (induction k rule: partition_dunder.induct) (auto split: prod.splits if_splits)

lemma keys_dict_set_present:
  "k \<in> set (dict_keys d) \<Longrightarrow> set (dict_keys (dict_set k v d)) = set (dict_keys d)"
  using keys_dict_set [of k v d] by (auto simp: dict_keys_def)

lemma set_params_loop_invalid:
  assumes "\<forall>(k, u) \<in> set pre. fst (partition_dunder k) \<in> set (dict_keys valid)"
    and "fst (partition_dunder full_key) \<notin> set (dict_keys valid)"
  shows "\<exists>st1. set_params_loop (pre @ (full_key, v) # post) st valid nested
             = (st1, Inl (ValueError_InvalidParameter (fst (partition_dunder full_key))))
           \<and> (\<forall>a. (\<forall>(k, u) \<in> set pre. k \<noteq> a)
                 \<longrightarrow> map_of (self_dict st1) a = map_of (self_dict st) a)
           \<and> (\<forall>k u. distinct (map fst pre) \<and> (k, u) \<in> set pre
                      \<and> fst (snd (partition_dunder k)) = []
                 \<longrightarrow> map_of (self_dict st1) k = Some u)
           \<and> (pre = [] \<longrightarrow> st1 = st)"
  using assms
proof (induction pre arbitrary: st valid nested)
  case Nil
  then show ?case by (auto split: prod.splits)
next
  case (Cons p pre)
  obtain fk w where p: "p = (fk, w)" by (cases p)
  obtain key delim sub where pd: "partition_dunder fk = (key, delim, sub)"
    by (cases "partition_dunder fk")
  from Cons.prems p pd have kv: "key \<in> set (dict_keys valid)" by auto
  from Cons.prems have rest: "\<forall>(k, u) \<in> set pre. fst (partition_dunder k) \<in> set (dict_keys valid)"
    by simp
  show ?case
  proof (cases "delim = []")
    case False
    from Cons.IH [OF rest Cons.prems(2), of st "nested_set key sub w nested"]
    obtain st1 where
      l: "set_params_loop (pre @ (full_key, v) # post) st valid (nested_set key sub w nested)
            = (st1, Inl (ValueError_InvalidParameter (fst (partition_dunder full_key))))"
      and u: "\<forall>a. (\<forall>(k, u) \<in> set pre. k \<noteq> a)
                 \<longrightarrow> map_of (self_dict st1) a = map_of (self_dict st) a"
      and s: "\<forall>k u. distinct (map fst pre) \<and> (k, u) \<in> set pre
                      \<and> fst (snd (partition_dunder k)) = []
                 \<longrightarrow> map_of (self_dict st1) k = Some u"
      by blast
    have "set_params_loop ((p # pre) @ (full_key, v) # post) st valid nested
            = (st1, Inl (ValueError_InvalidParameter (fst (partition_dunder full_key))))"
      using l False kv by (simp add: p pd)
    moreover have "\<forall>a. (\<forall>(k, u) \<in> set (p # pre). k \<noteq> a)
                 \<longrightarrow> map_of (self_dict st1) a = map_of (self_dict st) a"
      using u by auto
    moreover have "\<forall>k u. distinct (map fst (p # pre)) \<and> (k, u) \<in> set (p # pre)
                      \<and> fst (snd (partition_dunder k)) = []
                 \<longrightarrow> map_of (self_dict st1) k = Some u"
      using s False p pd by auto
    ultimately show ?thesis by blast
  next
    case True
    with pd have key: "key = fk" using partition_dunder_plain [of fk] by simp
    have rest1: "\<forall>(k, u) \<in> set pre.
                   fst (partition_dunder k) \<in> set (dict_keys (dict_set key w valid))"
      using rest kv by (simp add: keys_dict_set_present)
    have bad1: "fst (partition_dunder full_key) \<notin> set (dict_keys (dict_set key w valid))"
      using Cons.prems(2) kv by (simp add: keys_dict_set_present)
    from Cons.IH [OF rest1 bad1, of "py_setattr key w st" nested]
    obtain st1 where
      l: "set_params_loop (pre @ (full_key, v) # post) (py_setattr key w st)
            (dict_set key w valid) nested
            = (st1, Inl (ValueError_InvalidParameter (fst (partition_dunder full_key))))"
      and u: "\<forall>a. (\<forall>(k, u) \<in> set pre. k \<noteq> a)
                 \<longrightarrow> map_of (self_dict st1) a = map_of (self_dict (py_setattr key w st)) a"
      and s: "\<forall>k u. distinct (map fst pre) \<and> (k, u) \<in> set pre
                      \<and> fst (snd (partition_dunder k)) = []
                 \<longrightarrow> map_of (self_dict st1) k = Some u"
      by blast
    have "set_params_loop ((p # pre) @ (full_key, v) # post) st valid nested
            = (st1, Inl (ValueError_InvalidParameter (fst (partition_dunder full_key))))"
      using l True kv by (simp add: p pd)
    moreover have "\<forall>a. (\<forall>(k, u) \<in> set (p # pre). k \<noteq> a)
                 \<longrightarrow> map_of (self_dict st1) a = map_of (self_dict st) a"
      using u key p by (auto simp: py_setattr_def map_of_dict_set)
    moreover have "\<forall>k u. distinct (map fst (p # pre)) \<and> (k, u) \<in> set (p # pre)
                      \<and> fst (snd (partition_dunder k)) = []
                 \<longrightarrow> map_of (self_dict st1) k = Some u"
    proof (intro allI impI)
      fix k u
      assume a: "distinct (map fst (p # pre)) \<and> (k, u) \<in> set (p # pre)
                      \<and> fst (snd (partition_dunder k)) = []"
      show "map_of (self_dict st1) k = Some u"
      proof (cases "(k, u) = p")
        case True
        with a p have "\<forall>(k', u') \<in> set pre. k' \<noteq> fk" by force
        with u have "map_of (self_dict st1) fk = map_of (self_dict (py_setattr key w st)) fk"
          by blast
        with True p key show ?thesis by (simp add: py_setattr_def map_of_dict_set)
      next
        case False
        with a s show ?thesis by auto
      qed
    qed
    ultimately show ?thesis by blast
  qed
qed

lemma example_valid_params:
  "get_params example_ext example_classifier True
     = Inr [(''batch_size'', PInt 32), (''build_fn'', PFunction example_build_fn),
            (''epochs'', PInt 1)]"
  by (simp add: get_params_def get_param_names_def py_getattr_def example_classifier_def
      example_ext_def dict_set_def)

subsection \<open>Loss-dependent encoding of the blocks\<close>

lemma bind_res_Inr:
  "bind_res r f = Inr v \<longleftrightarrow> (\<exists>u. r = Inr u \<and> f u = Inr v)"
  by (cases r) simp_all

lemma encode_loop_blocks:
  assumes "encode_loop x i ps y = Inr y1" and "i + length ps \<le> length y"
  shows "length y1 = length y
         \<and> (\<forall>j<length y.
               (j < i \<or> i + length ps \<le> j \<longrightarrow> y1 ! j = y ! j)
             \<and> (i \<le> j \<and> j < i + length ps \<longrightarrow>
                  (if is_categorical_crossentropy (fst (ps ! (j - i)))
                      \<and> (ndim (snd (ps ! (j - i))) = 1 \<or> shape1 (snd (ps ! (j - i))) = Inr 1)
                   then to_categorical x (snd (ps ! (j - i))) = Inr (y1 ! j)
                   else y1 ! j = y ! j)))"
  using assms
proof (induction ps arbitrary: i y)
  case Nil
  then show ?case by auto
next
  case (Cons p ps)
  obtain l b where p: "p = (l, b)" by (cases p)
  let ?due = "is_categorical_crossentropy l \<and> (ndim b = 1 \<or> shape1 b = Inr 1)"
  show ?case
  proof (cases ?due)
    case True
    with Cons.prems(1) p obtain c where c: "to_categorical x b = Inr c"
      and r: "encode_loop x (Suc i) ps (y[i := c]) = Inr y1"
      by (auto simp: bind_res_Inr split: if_splits)
    from Cons.prems(2) have le: "Suc i + length ps \<le> length (y[i := c])" by simp
    note ih = Cons.IH [OF r le]
    show ?thesis
    proof (intro conjI allI impI)
      show "length y1 = length y" using ih by simp
    next
      fix j assume j: "j < length y" and "j < i \<or> i + length (p # ps) \<le> j"
      then show "y1 ! j = y ! j" using ih by auto
    next
      fix j assume j: "j < length y" and b: "i \<le> j \<and> j < i + length (p # ps)"
      show "if is_categorical_crossentropy (fst ((p # ps) ! (j - i)))
               \<and> (ndim (snd ((p # ps) ! (j - i))) = 1 \<or> shape1 (snd ((p # ps) ! (j - i))) = Inr 1)
            then to_categorical x (snd ((p # ps) ! (j - i))) = Inr (y1 ! j)
            else y1 ! j = y ! j"
      proof (cases "j = i")
        case True
        have "y1 ! i = y[i := c] ! i" using ih j True by auto
        then have "y1 ! i = c" using j True by simp
        with True \<open>?due\<close> c p show ?thesis by simp
      next
        case False
        with b have s: "Suc i \<le> j \<and> j < Suc i + length ps" by auto
        have e: "(p # ps) ! (j - i) = ps ! (j - Suc i)"
          using False b by (simp add: nth_Cons' Suc_diff_Suc)
        have n: "y[i := c] ! j = y ! j" using False by simp
        from ih j s show ?thesis unfolding e n [symmetric] by auto
      qed
    qed
  next
    case False
    with Cons.prems(1) p have r: "encode_loop x (Suc i) ps y = Inr y1"
      by (auto simp: bind_res_Inr split: if_splits)
    from Cons.prems(2) have le: "Suc i + length ps \<le> length y" by simp
    note ih = Cons.IH [OF r le]
    show ?thesis
    proof (intro conjI allI impI)
      show "length y1 = length y" using ih by simp
    next
      fix j assume j: "j < length y" and "j < i \<or> i + length (p # ps) \<le> j"
      then show "y1 ! j = y ! j" using ih by auto
    next
      fix j assume j: "j < length y" and b: "i \<le> j \<and> j < i + length (p # ps)"
      show "if is_categorical_crossentropy (fst ((p # ps) ! (j - i)))
               \<and> (ndim (snd ((p # ps) ! (j - i))) = 1 \<or> shape1 (snd ((p # ps) ! (j - i))) = Inr 1)
            then to_categorical x (snd ((p # ps) ! (j - i))) = Inr (y1 ! j)
            else y1 ! j = y ! j"
      proof (cases "j = i")
        case True
        have "y1 ! i = y ! i" using ih j True by auto
        with True False p show ?thesis by auto
      next
        case F: False
        with b have s: "Suc i \<le> j \<and> j < Suc i + length ps" by auto
        have e: "(p # ps) ! (j - i) = ps ! (j - Suc i)"
          using F b by (simp add: nth_Cons' Suc_diff_Suc)
        from ih j s show ?thesis unfolding e by auto
      qed
    qed
  qed
qed


lemma encode_loop_zip:
  assumes "encode_loop x 0 (zip losses y) y = Inr y1"
  shows "length y1 = length y
         \<and> (\<forall>i<length y.
               if i < length losses \<and> is_categorical_crossentropy (losses ! i)
                    \<and> (ndim (y ! i) = 1 \<or> shape1 (y ! i) = Inr 1)
               then to_categorical x (y ! i) = Inr (y1 ! i)
               else y1 ! i = y ! i)"
proof -
  have le: "0 + length (zip losses y) \<le> length y" by simp
  note e = encode_loop_blocks [OF assms le]
  show ?thesis
  proof (intro conjI allI impI)
    show "length y1 = length y" using e by simp
  next
    fix i assume i: "i < length y"
    show "if i < length losses \<and> is_categorical_crossentropy (losses ! i)
                    \<and> (ndim (y ! i) = 1 \<or> shape1 (y ! i) = Inr 1)
               then to_categorical x (y ! i) = Inr (y1 ! i)
               else y1 ! i = y ! i"
    proof (cases "i < length losses")
      case True
      with i have "i < 0 + length (zip losses y)" by simp
      with e i have "if is_categorical_crossentropy (fst (zip losses y ! (i - 0)))
                      \<and> (ndim (snd (zip losses y ! (i - 0))) = 1
                           \<or> shape1 (snd (zip losses y ! (i - 0))) = Inr 1)
                   then to_categorical x (snd (zip losses y ! (i - 0))) = Inr (y1 ! i)
                   else y1 ! i = y ! i"
        by blast
      with True i show ?thesis by (auto split: if_splits)
    next
      case False
      with i have "0 + length (zip losses y) \<le> i" by simp
      with e i have "y1 ! i = y ! i" by blast
      with False show ?thesis by simp
    qed
  qed
qed

lemma to_categorical_example:
  "to_categorical example_ext example_index_block = Inr example_one_hot"
  by (simp add: example_ext_def keras_to_categorical_def example_index_block_def
      example_one_hot_def ndim_def upt_rec)

lemma get_model_example_categorical: "get_model example_categorical = Inr categorical_model"
  by (simp add: example_categorical_def get_model_def py_getattr_def py_setattr_def
      example_fitted_def dict_set_def)

lemma model_losses_example_categorical:
  "model_losses example_categorical categorical_model = Inr [CategoricalCrossentropy]"
  by (simp add: model_losses_def categorical_model_def example_categorical_def py_getattr_def
      py_setattr_def example_fitted_def dict_set_def)

lemma n_outputs_keras_example_categorical:
  "py_getattr example_categorical ''n_outputs_keras_'' = Inr (PInt 1)"
  by (simp add: example_categorical_def py_getattr_def py_setattr_def
      example_fitted_def dict_set_def)

lemma check_example_categorical:
  "classifier_check_output_model_compatibility example_ext example_categorical
        [example_index_block] = Inr (Bare example_one_hot)"
proof -
  have s: "shape1 example_index_block = Inr 1"
    by (simp add: shape1_def example_index_block_def)
  show ?thesis
    by (simp add: classifier_check_output_model_compatibility_def
        get_model_example_categorical model_losses_example_categorical
        is_categorical_crossentropy_def s to_categorical_example
        base_check_output_model_compatibility_def n_outputs_keras_example_categorical)
qed

subsection \<open>Shapes of predictions\<close>

lemma squeeze_no_singleton: "1 \<notin> set (shape (squeeze a))"
  by (simp add: squeeze_def)

lemma shape_squeeze_column: "shape (squeeze (NDArray [n, 1] d)) = (if n = 1 then [] else [n])"
  by (simp add: squeeze_def)

lemma classifier_post_process_y_squeezed:
  "classifier_post_process_y st out = Inr (y, extra) \<Longrightarrow> \<exists>a. y = squeeze a"
  by (auto simp: classifier_post_process_y_def Let_def bind_res_Inr split: prod.splits)

lemma regressor_post_process_y_squeezed:
  "regressor_post_process_y out = Inr (y, extra) \<Longrightarrow> \<exists>a. y = squeeze a"
  by (auto simp: regressor_post_process_y_def bind_res_Inr split: model_output.splits)

lemma base_post_process_y_squeezed:
  "base_post_process_y out = Inr (y, extra) \<Longrightarrow> \<exists>a. y = squeeze a"
  by (auto simp: base_post_process_y_def bind_res_Inr)

lemma predict_squeezed:
  assumes "snd (predict x st X kwargs) = Inr y"
  shows "\<exists>a. y = squeeze a"
proof -
  from assms obtain st1 out extra where "post_process_y st1 out = Inr (y, extra)"
    by (auto simp: predict_def split: prod.splits sum.splits)
  then show ?thesis
    using classifier_post_process_y_squeezed regressor_post_process_y_squeezed
    by (auto simp: post_process_y_def split: kind.splits)
qed

lemma shape_map_result_array:
  "map_result f xs = Inr ys \<Longrightarrow> length ys = length xs"
  by (induction xs arbitrary: ys) (auto split: sum.splits)

lemma shape_astype_float: "astype_float a = Inr b \<Longrightarrow> shape b = shape a"
  by (auto simp: astype_float_def split: sum.splits)

lemma shape_where_gt_half: "where_gt_half a = Inr b \<Longrightarrow> shape b = shape a"
  by (auto simp: where_gt_half_def split: sum.splits)

lemma shape_take_classes_1d:
  "take_classes (NDArray [k] cs) idx = Inr r \<Longrightarrow> shape r = shape idx"
  by (auto simp: take_classes_def split: if_splits)

lemma shape_argmax_column: "argmax_axis1 a = Inr r \<Longrightarrow> shape a = [n, m] \<Longrightarrow> shape r = [n]"
  by (auto simp: argmax_axis1_def Let_def split: if_splits)

lemma shape_column_stack_single:
  "column_stack [p] = Inr r \<Longrightarrow> shape p = [n, 1] \<or> shape p = [n] \<Longrightarrow> shape r = [n, 1]"
  by (auto simp: column_stack_def concatenate1_def as_column_def ndim_def split: if_splits)

lemma concatenate1_shape:
  assumes "concatenate1 arrs = Inr r"
  shows "arrs \<noteq> [] \<and> shape r = hd (shape (hd arrs))
            # sum_list (map (\<lambda>b. hd (tl (shape b))) arrs) # drop 2 (shape (hd arrs))"
proof (cases arrs)
  case Nil
  with assms show ?thesis by (simp add: concatenate1_def)
next
  case (Cons a others)
  with assms show ?thesis
    by (auto simp: concatenate1_def split: if_splits)
qed

lemma base_post_process_y_column:
  assumes "base_post_process_y (OutArr (NDArray [n, 1] d)) = Inr (y, extra)"
  shows "shape y = (if n = 1 then [] else [n])"
proof -
  let ?cols = "map (\<lambda>i. NDArray [1, 1] (row_chunk (NDArray [n, 1] d) i)) [0..<n]"
  have m: "map as_column (map (\<lambda>i. NDArray [1] (row_chunk (NDArray [n, 1] d) i)) [0..<n]) = ?cols"
    by (simp add: as_column_def)
  from assms obtain r where c: "concatenate1 ?cols = Inr r" and y: "y = squeeze r"
    unfolding m [symmetric]
    by (auto simp: base_post_process_y_def bind_res_Inr np_iter_def column_stack_def)
  have s: "sum_list (map (\<lambda>b. hd (tl (shape b))) ?cols) = n"
    by (simp add: comp_def sum_list_triv)
  note cs = concatenate1_shape [OF c]
  then have "n \<noteq> 0" by auto
  then have "hd ?cols = NDArray [1, 1] (row_chunk (NDArray [n, 1] d) 0)"
    by (simp add: hd_map upt_conv_Cons del: upt_Suc)
  with cs s have "shape r = [1, n]" by simp
  with y show ?thesis by (simp add: squeeze_def)
qed


lemma shape_nat_labels: "shape (nat_labels a) = shape a"
  by (simp add: nat_labels_def)

lemma post_loop_single_column:
  assumes "post_loop ct 0 [(a, PArr (NDArray [k] cs))] [a] [] = Inr (y1, preds)"
    and "shape a = [n, 1]"
  shows "\<exists>pred. preds = [pred] \<and> (shape pred = [n, 1] \<or> shape pred = [n])"
  using assms
  by (auto simp: bind_res_Inr shape1_def shape_nat_labels split: if_splits
      dest!: shape_where_gt_half shape_take_classes_1d dest: shape_argmax_column)

lemma classifier_post_process_y_column:
  assumes "py_getattr st ''n_outputs_'' = Inr (PInt 1)"
    and "py_getattr st ''classes_'' = Inr (PArr (NDArray [k] cs))"
    and "classifier_post_process_y st (OutArr (NDArray [n, 1] d)) = Inr (y, extra)"
  shows "shape y = (if n = 1 then [] else [n])"
proof -
  from assms obtain ct y1 preds p where
    l: "post_loop ct 0 [(NDArray [n, 1] d, PArr (NDArray [k] cs))] [NDArray [n, 1] d] []
          = Inr (y1, preds)"
    and c: "column_stack preds = Inr p" and y: "y = squeeze p"
    by (auto simp: classifier_post_process_y_def bind_res_Inr Let_def
        simp del: post_loop.simps split: prod.splits)
  from post_loop_single_column [OF l] obtain pred where
    "preds = [pred]" "shape pred = [n, 1] \<or> shape pred = [n]"
    by auto
  with c have "shape p = [n, 1]"
    using shape_column_stack_single by blast
  with y show ?thesis by (simp add: squeeze_def)
qed

lemma classifier_post_process_example: "classifier_post_process_y example_fitted (OutArr example_output)
   = Inr (NDArray [2] [SStr ''yes'', SStr ''no''],
          [(''class_probabilities'',
            PArr (NDArray [2, 2] [SReal (3 / 10), SReal (7 / 10), SReal (4 / 5), SReal (1 / 5)]))])"
  by (simp add: classifier_post_process_y_def py_getattr_def example_fitted_def
      example_output_def shape1_def where_gt_half_def take_classes_def row_chunk_def
      row_width_def one_minus_def concatenate1_def ndim_def column_stack_def as_column_def
      squeeze_def upt_rec)

lemma base_post_process_example: "base_post_process_y (OutArr example_output)
   = Inr (NDArray [2] [SReal (7 / 10), SReal (1 / 5)], [])"
  by (simp add: base_post_process_y_def np_iter_def
      example_output_def row_chunk_def
      row_width_def concatenate1_def ndim_def column_stack_def as_column_def
      squeeze_def upt_rec)

lemma regressor_post_process_example: "regressor_post_process_y (OutArr (NDArray [1, 1] [SInt 3]))
   = Inr (NDArray [] [SReal 3], [])"
  by (simp add: regressor_post_process_y_def astype_float_def squeeze_def)

lemma class_attr_trace: "class_attr (st\<lparr>trace := t\<rparr>) name = class_attr st name"
  by (simp add: class_attr_def)

lemma py_getattr_trace: "py_getattr (st\<lparr>trace := t\<rparr>) name = py_getattr st name"
  by (simp add: py_getattr_def class_attr_trace split: option.splits)

lemma classifier_post_process_y_trace:
  "classifier_post_process_y (st\<lparr>trace := t\<rparr>) out = classifier_post_process_y st out"
  by (simp add: classifier_post_process_y_def py_getattr_trace)

lemma run_predict_example:
  "run_predict example_ext example_fitted (PObj 0) []
     = (example_fitted\<lparr>trace := trace example_fitted
          @ [PredictCall example_model (PObj 0) [(''batch_size'', PInt 32)]]\<rparr>,
        Inr (OutArr example_output))"
proof -
  have f: "py_getattr example_fitted ''is_fitted_'' = Inr (PBool True)"
    by (simp add: py_getattr_def example_fitted_def)
  have a: "filter_params (self_dict example_fitted) (predict_sig example_model) (Some [])
             = [(''batch_size'', PInt 32)]"
          "filter_params (self_dict example_fitted) (predict_sig example_model) None
             = [(''batch_size'', PInt 32)]"
    by (simp_all add: filter_params_def pool_or_def filter_step_def has_arg_def dict_set_def
        example_fitted_def example_model_def keras_predict_sig_def)
  have m: "dict_merge [(''batch_size'', PInt 32)] [(''batch_size'', PInt 32)]
             = [(''batch_size'', PInt 32 :: pyval)]"
    by (simp add: dict_merge_def dict_set_def)
  have c: "check_array example_ext (PObj 0) = Inr (PObj 0)"
          "model_predict example_ext example_model (PObj 0) [(''batch_size'', PInt 32)]
             = Inr (OutArr example_output)"
    by (simp_all add: example_ext_def)
  show ?thesis
    by (simp add: run_predict_def f get_model_example_fitted a m c pre_process_X_def)
qed

lemma predict_example:
  "snd (predict example_ext example_fitted (PObj 0) [])
     = Inr (NDArray [2] [SStr ''yes'', SStr ''no''])"
proof -
  have k: "est_kind (example_fitted\<lparr>trace := t\<rparr>) = ClassifierKind" for t
    by (simp add: example_fitted_def)
  show ?thesis
    by (simp add: predict_def run_predict_example post_process_y_def k
        classifier_post_process_y_trace classifier_post_process_example)
qed

subsection \<open>The output-count check on the example\<close>

lemma pre_process_multilabel:
  "pre_process_y example_ext example_classifier multilabel_y
     = Inr (multilabel_blocks,
            [(''classes_'', PSeq [PArr (NDArray [2] [SInt 0, SInt 1]),
                                  PArr (NDArray [2] [SInt 0, SInt 1])]),
             (''n_outputs_'', PInt 2), (''n_outputs_keras_'', PInt 2),
             (''n_classes_'', PSeq [PInt 2, PInt 2]),
             (''cls_type_'', PStr ''multilabel-indicator'')])"
proof -
  have t: "sk_type_of_target multilabel_y = ''multilabel-indicator''"
    by (simp add: sk_type_of_target_def multilabel_y_def ndim_def less_eq_scalar_def)
  have s: "shape1 multilabel_y = Inr 2" "ndim multilabel_y = 2"
    by (simp_all add: shape1_def multilabel_y_def ndim_def)
  have c: "split_columns multilabel_y = Inr multilabel_blocks"
    by (simp add: split_columns_def multilabel_y_def multilabel_blocks_def column_block_def
        upt_rec)
  have l: "length multilabel_blocks = 2" by (simp add: multilabel_blocks_def)
  have k: "est_kind example_classifier = ClassifierKind" by (simp add: example_classifier_def)
  have tt: "type_of_target example_ext = sk_type_of_target" by (simp add: example_ext_def)
  show ?thesis
    by (simp add: pre_process_y_def k classifier_pre_process_y_def base_pre_process_y_def s tt t c
        l classifier_extra_args_def numeral_2_eq_2)
qed

lemma base_check_output_model_compatibility_cases:
  assumes "py_getattr st ''n_outputs_keras_'' = Inr n"
  shows "base_check_output_model_compatibility st y =
           (if \<not> py_eq_int n (int (length y)) then Inl (RuntimeError_OutputMismatch n (length y))
            else if length y = 1 then Inr (Bare (hd y))
            else Inr (Blocks (map squeeze y)))"
  using assms by (simp add: base_check_output_model_compatibility_def)

subsection \<open>Rows, columns and vocabularies\<close>


lemma take1_drop: "i < length d \<Longrightarrow> take 1 (drop i d) = [d ! i]"
  by (simp add: Cons_nth_drop_Suc [symmetric])







subsection \<open>Attributes stored by fit\<close>

lemma self_dict_store_extra_args:
  "self_dict (store_extra_args extra st) = dict_merge (self_dict st) extra"
proof (induction extra arbitrary: st)
  case Nil
  then show ?case by (simp add: store_extra_args_def dict_merge_def)
next
  case (Cons p extra)
  obtain n v where p: "p = (n, v)" by (cases p)
  have "store_extra_args (p # extra) st = store_extra_args extra (py_setattr n v st)"
    by (simp add: store_extra_args_def p)
  moreover have "dict_merge (self_dict st) (p # extra)
                   = dict_merge (self_dict (py_setattr n v st)) extra"
    by (simp add: dict_merge_def p py_setattr_def)
  ultimately show ?case using Cons.IH by simp
qed



lemma vocabularies_stored:
  "(if py_eq_int (PInt (if length cls = 1 then 1 else int (length cls))) 1
      then Inr [if length cls = 1 then PArr (hd cls) else PSeq (map PArr cls)]
    else py_items (if length cls = 1 then PArr (hd cls) else PSeq (map PArr cls)))
   = Inr (map PArr cls)"
  by (cases cls) (auto simp: length_Suc_conv)


subsection \<open>Decoding an encoded output\<close>












lemma shape_one_minus: "one_minus a = Inr b \<Longrightarrow> shape b = shape a"
  by (auto simp: one_minus_def split: sum.splits)







subsection \<open>Pre-processing followed by post-processing\<close>
















subsection \<open>The output-count check inside fit\<close>

lemma build_keras_model_self_dict:
  assumes "build_keras_model x st X y sw kwargs = (st2, r)"
  shows "self_dict st2 = self_dict st"
  using assms
  by (auto simp: build_keras_model_def check_build_fn_def Let_def
      split: sum.splits prod.splits if_splits)

lemma pre_process_y_count:
  assumes "pre_process_y x st y = Inr (ys, extra)"
  shows "distinct (map fst extra)
         \<and> map_of extra ''n_outputs_keras_'' = Some (PInt (int (length ys)))"
  using assms
  by (auto simp: pre_process_y_def classifier_pre_process_y_def regressor_pre_process_y_def
      classifier_extra_args_def bind_res_Inr Let_def split: kind.splits if_splits)

lemma output_count_check_cannot_fail:
  assumes p: "pre_process_y x st y = Inr (ys, extra)"
    and b: "build_keras_model x (store_extra_args extra st) X yv sw kwargs = (st2, Inr m)"
    and l: "length ys1 = length ys"
  shows "base_check_output_model_compatibility (py_setattr ''model_'' (PModel m) st2) ys1
           = (if length ys = 1 then Inr (Bare (hd ys1)) else Inr (Blocks (map squeeze ys1)))"
proof -
  note c = pre_process_y_count [OF p]
  have "map_of (self_dict (store_extra_args extra st)) ''n_outputs_keras_''
          = Some (PInt (int (length ys)))"
    using c by (simp add: self_dict_store_extra_args dict_merge_override)
  then have "map_of (self_dict st2) ''n_outputs_keras_'' = Some (PInt (int (length ys)))"
    using build_keras_model_self_dict [OF b] by simp
  then have "py_getattr (py_setattr ''model_'' (PModel m) st2) ''n_outputs_keras_''
               = Inr (PInt (int (length ys)))"
    by (simp add: py_getattr_def py_setattr_def map_of_dict_set)
  then show ?thesis
    using l by (simp add: base_check_output_model_compatibility_def)
qed

section \<open>The claims\<close>

text \<open>
  C2. The router's filter is to return exactly the entries of the pool whose keys are
  declared named parameters of the callable. With a pool that is present but empty, as
  \<open>predict(X)\<close> without keyword arguments passes it, \<open>params_to_check or self.__dict__\<close>
  takes the instance attributes instead: for an estimator with the attribute
  \<open>epochs = 5\<close> and a callable declaring \<open>x\<close> and \<open>epochs\<close>, filtering the empty pool
  yields \<open>{epochs: 5}\<close>, which is no part of the pool.
\<close>

theorem filter_params_empty_pool_returns_attributes:
  "filter_params [(''build_fn'', PNone), (''epochs'', PInt 5)]
     \<lparr>sig_args = [''x'', ''epochs''], sig_kwonlyargs = [], sig_varargs = None, sig_varkw = None\<rparr>
     (Some []) = [(''epochs'', PInt 5)]"
  by (simp add: filter_params_def pool_or_def filter_step_def has_arg_def dict_set_def)

text \<open>
  C3. Merging a base pool with an override pool gives, for every key present in both,
  the override pool's value. In particular, when a fit-time keyword argument and an
  instance attribute share a name that the model's \<open>fit\<close> declares, \<open>fit\<close> is invoked
  with the keyword argument's value. (The call is made when the sample weights, if any,
  are supported and no pool names \<open>x\<close> or \<open>y\<close> a second time.)
\<close>

theorem kwarg_overrides_attribute:
  "(distinct (map fst override) \<and> map_of base k = Some w \<and> map_of override k = Some v
      \<longrightarrow> map_of (dict_merge base override) k = Some v)
   \<and> (get_model st = Inr m \<and> distinct (map fst kwargs) \<and> map_of kwargs n = Some v
        \<and> map_of (self_dict st) n = Some w \<and> has_arg (fit_sig m) n
        \<and> n \<notin> {''x'', ''y'', ''sample_weight''}
        \<and> {''x'', ''y''} \<inter> (fst ` set kwargs \<union> fst ` set (self_dict st)) = {}
        \<and> (sample_weight = PNone \<or> has_arg (fit_sig m) ''sample_weight'')
      \<longrightarrow> (\<exists>fit_args.
             trace (fst (fit_keras_model x st X y sample_weight kwargs))
               = trace st @ [FitCall m X y fit_args]
             \<and> map_of fit_args n = Some v))"
proof (intro conjI impI)
  assume "distinct (map fst override) \<and> map_of base k = Some w \<and> map_of override k = Some v"
  then show "map_of (dict_merge base override) k = Some v"
    by (simp add: dict_merge_override)
next
  assume a: "get_model st = Inr m \<and> distinct (map fst kwargs) \<and> map_of kwargs n = Some v
        \<and> map_of (self_dict st) n = Some w \<and> has_arg (fit_sig m) n
        \<and> n \<notin> {''x'', ''y'', ''sample_weight''}
        \<and> {''x'', ''y''} \<inter> (fst ` set kwargs \<union> fst ` set (self_dict st)) = {}
        \<and> (sample_weight = PNone \<or> has_arg (fit_sig m) ''sample_weight'')"
  define kwargs1 where "kwargs1 = inject_sample_weight sample_weight kwargs"
  define kwargs2 where "kwargs2 = filter_params (self_dict st) (fit_sig m) (Some kwargs1)"
  define fit_args where
    "fit_args = dict_merge (filter_params (self_dict st) (fit_sig m) None) kwargs2"
  from a have d1: "distinct (map fst kwargs1)"
    by (simp add: kwargs1_def inject_sample_weight_props(1))
  from a have n1: "map_of kwargs1 n = Some v"
    by (simp add: kwargs1_def inject_sample_weight_props(2))
  then have ne: "kwargs1 \<noteq> []" by auto
  have m2: "map_of kwargs2 k = (if has_arg (fit_sig m) k then map_of kwargs1 k else None)" for k
    unfolding kwargs2_def using map_of_filter_params_pool [OF ne d1] by simp
  have d2: "distinct (map fst kwargs2)"
    unfolding kwargs2_def by (rule distinct_filter_params)
  have sw: "sample_weight \<noteq> PNone \<Longrightarrow> ''sample_weight'' \<in> fst ` set kwargs2"
  proof -
    assume s: "sample_weight \<noteq> PNone"
    with a have "map_of kwargs2 ''sample_weight'' = Some sample_weight"
      by (simp add: m2 kwargs1_def inject_sample_weight_props(4))
    then have "(''sample_weight'', sample_weight) \<in> set kwargs2" by (rule map_of_SomeD)
    then show ?thesis by force
  qed
  have k2: "fst ` set kwargs2 \<subseteq> insert ''sample_weight'' (fst ` set kwargs)"
  proof
    fix k assume "k \<in> fst ` set kwargs2"
    then have "k \<in> fst ` set (pool_or (Some kwargs1) (self_dict st))"
      unfolding kwargs2_def by (rule filter_params_keys_pool)
    then have "k \<in> fst ` set kwargs1" using ne by (simp add: pool_or_def)
    then show "k \<in> insert ''sample_weight'' (fst ` set kwargs)"
      using inject_sample_weight_props(3) kwargs1_def by blast
  qed
  have k0: "fst ` set (filter_params (self_dict st) (fit_sig m) None) \<subseteq> fst ` set (self_dict st)"
    using filter_params_keys_pool [of _ "self_dict st" "fit_sig m" None]
    by (auto simp: pool_or_def)
  have keys: "fst ` set fit_args \<subseteq> insert ''sample_weight'' (fst ` set kwargs) \<union> fst ` set (self_dict st)"
    unfolding fit_args_def keys_dict_merge using k2 k0 by blast
  from a have noxy: "''x'' \<notin> fst ` set fit_args" "''y'' \<notin> fst ` set fit_args"
    using keys by auto
  have val: "map_of fit_args n = Some v"
    unfolding fit_args_def using a n1 d2 by (intro dict_merge_override) (simp_all add: m2)
  have "trace (fst (fit_keras_model x st X y sample_weight kwargs))
          = trace st @ [FitCall m X y fit_args]"
    using a sw noxy
    by (auto simp: fit_keras_model_def Let_def dict_keys_def trace_py_setattr
        kwargs1_def [symmetric] kwargs2_def [symmetric] fit_args_def [symmetric]
        split: sum.splits)
  with val show "\<exists>fit_args.
             trace (fst (fit_keras_model x st X y sample_weight kwargs))
               = trace st @ [FitCall m X y fit_args]
             \<and> map_of fit_args n = Some v"
    by blast
qed

theorem kwarg_overrides_attribute_witness:
  "map_of (dict_merge [(''epochs'', PInt 1)] [(''epochs'', PInt 9)]) ''epochs'' = Some (PInt 9)
   \<and> get_model example_fitted = Inr example_model
   \<and> map_of (self_dict example_fitted) ''epochs'' = Some (PInt 1)
   \<and> has_arg (fit_sig example_model) ''epochs''
   \<and> (\<exists>fit_args.
         trace (fst (fit_keras_model example_ext example_fitted (PObj 0)
                       (Bare (NDArray [4, 1] [SInt 1, SInt 0, SInt 1, SInt 0])) PNone
                       [(''epochs'', PInt 9)]))
           = trace example_fitted
               @ [FitCall example_model (PObj 0)
                    (Bare (NDArray [4, 1] [SInt 1, SInt 0, SInt 1, SInt 0])) fit_args]
         \<and> map_of fit_args ''epochs'' = Some (PInt 9))"
proof -
  have h1: "distinct (map fst [(''epochs'', PInt 9)])
            \<and> map_of [(''epochs'', PInt 1)] ''epochs'' = Some (PInt 1)
            \<and> map_of [(''epochs'', PInt 9)] ''epochs'' = Some (PInt 9)"
    by simp
  have a: "get_model example_fitted = Inr example_model"
    by (rule get_model_example_fitted)
  have b: "map_of (self_dict example_fitted) ''epochs'' = Some (PInt 1)"
    by (simp add: example_fitted_def)
  have c: "has_arg (fit_sig example_model) ''epochs''"
    by (simp add: has_arg_def example_model_def keras_fit_sig_def)
  have d: "{''x'', ''y''} \<inter> (fst ` set [(''epochs'', PInt 9)] \<union> fst ` set (self_dict example_fitted)) = {}"
    by (simp add: example_fitted_def)
  have h2: "get_model example_fitted = Inr example_model
        \<and> distinct (map fst [(''epochs'', PInt 9)])
        \<and> map_of [(''epochs'', PInt 9)] ''epochs'' = Some (PInt 9)
        \<and> map_of (self_dict example_fitted) ''epochs'' = Some (PInt 1)
        \<and> has_arg (fit_sig example_model) ''epochs''
        \<and> ''epochs'' \<notin> {''x'', ''y'', ''sample_weight''}
        \<and> {''x'', ''y''} \<inter> (fst ` set [(''epochs'', PInt 9)] \<union> fst ` set (self_dict example_fitted)) = {}
        \<and> (PNone = PNone \<or> has_arg (fit_sig example_model) ''sample_weight'')"
    using a b c d by simp
  from kwarg_overrides_attribute
    [of "[(''epochs'', PInt 9)]" "[(''epochs'', PInt 1)]" "''epochs''" "PInt 1" "PInt 9"
        example_fitted example_model "[(''epochs'', PInt 9)]" "''epochs''" PNone example_ext
        "PObj 0" "Bare (NDArray [4, 1] [SInt 1, SInt 0, SInt 1, SInt 0])"]
    h1 h2
  show ?thesis by blast
qed

text \<open>
  C7. In \<open>_fit_keras_model\<close> a sample weight that is not \<open>None\<close> is put into the fit
  kwargs pool under \<open>sample_weight\<close>, and \<open>None\<close> leaves the pool as it is. When the
  sample weight is not \<open>None\<close> and the model's \<open>fit\<close> declares no \<open>sample_weight\<close>
  parameter, the error naming the unsupported parameter and the model is raised with the
  estimator unchanged: no call of the model's \<open>fit\<close> is recorded. When the model's
  \<open>fit\<close> does declare \<open>sample_weight\<close>, the model's \<open>fit\<close> is invoked with that very
  weight under \<open>sample_weight\<close>, whatever the keyword arguments and the attributes hold
  under that name; and with the sample weight \<open>None\<close> and no keyword argument or
  attribute of that name, it is invoked without a \<open>sample_weight\<close> argument. (The
  call is made when no pool names \<open>x\<close> or \<open>y\<close> a second time.)
\<close>

theorem sample_weight_routing:
  "(sample_weight \<noteq> PNone \<longrightarrow>
      map_of (inject_sample_weight sample_weight kwargs) ''sample_weight'' = Some sample_weight)
   \<and> (sample_weight = PNone \<longrightarrow> inject_sample_weight sample_weight kwargs = kwargs)
   \<and> (sample_weight \<noteq> PNone \<and> get_model st = Inr m \<and> \<not> has_arg (fit_sig m) ''sample_weight''
        \<longrightarrow> fit_keras_model x st X y sample_weight kwargs =
              (st, Inl (ValueError_SampleWeightUnsupported m)))
   \<and> (sample_weight \<noteq> PNone \<and> get_model st = Inr m \<and> has_arg (fit_sig m) ''sample_weight''
        \<and> distinct (map fst kwargs)
        \<and> {''x'', ''y''} \<inter> (fst ` set kwargs \<union> fst ` set (self_dict st)) = {}
        \<longrightarrow> (\<exists>fit_args.
               trace (fst (fit_keras_model x st X y sample_weight kwargs))
                 = trace st @ [FitCall m X y fit_args]
               \<and> map_of fit_args ''sample_weight'' = Some sample_weight))
   \<and> (sample_weight = PNone \<and> get_model st = Inr m
        \<and> ''sample_weight'' \<notin> fst ` set kwargs \<union> fst ` set (self_dict st)
        \<and> {''x'', ''y''} \<inter> (fst ` set kwargs \<union> fst ` set (self_dict st)) = {}
        \<longrightarrow> (\<exists>fit_args.
               trace (fst (fit_keras_model x st X y sample_weight kwargs))
                 = trace st @ [FitCall m X y fit_args]
               \<and> map_of fit_args ''sample_weight'' = None))"
proof (intro conjI impI)
  assume "sample_weight \<noteq> PNone"
  then show "map_of (inject_sample_weight sample_weight kwargs) ''sample_weight''
               = Some sample_weight"
    by (rule inject_sample_weight_props(4))
next
  assume "sample_weight = PNone"
  then show "inject_sample_weight sample_weight kwargs = kwargs"
    by (simp add: inject_sample_weight_def)
next
  assume "sample_weight \<noteq> PNone \<and> get_model st = Inr m
            \<and> \<not> has_arg (fit_sig m) ''sample_weight''"
  then show "fit_keras_model x st X y sample_weight kwargs =
              (st, Inl (ValueError_SampleWeightUnsupported m))"
    by (simp add: fit_keras_model_unsupported)
next
  assume a: "sample_weight \<noteq> PNone \<and> get_model st = Inr m
        \<and> has_arg (fit_sig m) ''sample_weight''
        \<and> distinct (map fst kwargs)
        \<and> {''x'', ''y''} \<inter> (fst ` set kwargs \<union> fst ` set (self_dict st)) = {}"
  define kwargs1 where "kwargs1 = inject_sample_weight sample_weight kwargs"
  define kwargs2 where "kwargs2 = filter_params (self_dict st) (fit_sig m) (Some kwargs1)"
  define fit_args where
    "fit_args = dict_merge (filter_params (self_dict st) (fit_sig m) None) kwargs2"
  note nn = a [THEN conjunct1]
  note gm = a [THEN conjunct2, THEN conjunct1]
  note ha = a [THEN conjunct2, THEN conjunct2, THEN conjunct1]
  note dk = a [THEN conjunct2, THEN conjunct2, THEN conjunct2, THEN conjunct1]
  note xy = a [THEN conjunct2, THEN conjunct2, THEN conjunct2, THEN conjunct2]
  have sw: "sample_weight = PNone \<or> has_arg (fit_sig m) ''sample_weight''"
    using ha by (rule disjI2)
  have d1: "distinct (map fst kwargs1)"
    unfolding kwargs1_def using dk by (rule inject_sample_weight_props(1))
  have n1: "map_of kwargs1 ''sample_weight'' = Some sample_weight"
    unfolding kwargs1_def using nn by (rule inject_sample_weight_props(4))
  have ne: "kwargs1 \<noteq> []"
  proof
    assume "kwargs1 = []"
    with n1 show False by simp
  qed
  have "map_of kwargs2 ''sample_weight''
          = (if has_arg (fit_sig m) ''sample_weight'' then map_of kwargs1 ''sample_weight''
             else None)"
    unfolding kwargs2_def by (rule map_of_filter_params_pool [OF ne d1])
  then have m2: "map_of kwargs2 ''sample_weight'' = Some sample_weight"
    by (simp only: ha n1 if_True)
  have d2: "distinct (map fst kwargs2)"
    unfolding kwargs2_def by (rule distinct_filter_params)
  have val: "map_of fit_args ''sample_weight'' = Some sample_weight"
    unfolding fit_args_def using d2 m2 by (rule dict_merge_override)
  have tr: "trace (fst (fit_keras_model x st X y sample_weight kwargs))
           = trace st @ [FitCall m X y fit_args]"
    unfolding fit_args_def kwargs2_def kwargs1_def by (rule fit_keras_model_call [OF gm sw xy])
  show "\<exists>fit_args.
               trace (fst (fit_keras_model x st X y sample_weight kwargs))
                 = trace st @ [FitCall m X y fit_args]
               \<and> map_of fit_args ''sample_weight'' = Some sample_weight"
    by (rule exI [of _ fit_args], rule conjI, rule tr, rule val)
next
  assume a: "sample_weight = PNone \<and> get_model st = Inr m
        \<and> ''sample_weight'' \<notin> fst ` set kwargs \<union> fst ` set (self_dict st)
        \<and> {''x'', ''y''} \<inter> (fst ` set kwargs \<union> fst ` set (self_dict st)) = {}"
  define fit_args where
    "fit_args = dict_merge (filter_params (self_dict st) (fit_sig m) None)
                  (filter_params (self_dict st) (fit_sig m)
                     (Some (inject_sample_weight sample_weight kwargs)))"
  note nn = a [THEN conjunct1]
  note gm = a [THEN conjunct2, THEN conjunct1]
  note ns = a [THEN conjunct2, THEN conjunct2, THEN conjunct1]
  note xy = a [THEN conjunct2, THEN conjunct2, THEN conjunct2]
  have sw: "sample_weight = PNone \<or> has_arg (fit_sig m) ''sample_weight''"
    using nn by (rule disjI1)
  have inj: "inject_sample_weight sample_weight kwargs = kwargs"
    unfolding inject_sample_weight_def using nn by simp
  have k2: "fst ` set (filter_params (self_dict st) (fit_sig m) (Some kwargs))
              \<subseteq> fst ` set kwargs \<union> fst ` set (self_dict st)"
  proof
    fix k assume "k \<in> fst ` set (filter_params (self_dict st) (fit_sig m) (Some kwargs))"
    then have "k \<in> fst ` set (pool_or (Some kwargs) (self_dict st))"
      by (rule filter_params_keys_pool)
    then show "k \<in> fst ` set kwargs \<union> fst ` set (self_dict st)"
      by (auto simp: pool_or_def split: if_splits)
  qed
  have k0: "fst ` set (filter_params (self_dict st) (fit_sig m) None) \<subseteq> fst ` set (self_dict st)"
    using filter_params_keys_pool [of _ "self_dict st" "fit_sig m" None]
    by (auto simp: pool_or_def)
  have sub: "fst ` set fit_args \<subseteq> fst ` set kwargs \<union> fst ` set (self_dict st)"
    unfolding fit_args_def keys_dict_merge inj using k2 k0 by blast
  from sub ns have "''sample_weight'' \<notin> fst ` set fit_args"
    by (rule contra_subsetD)
  then have val: "map_of fit_args ''sample_weight'' = None"
    by (simp add: map_of_eq_None_iff)
  have tr: "trace (fst (fit_keras_model x st X y sample_weight kwargs))
           = trace st @ [FitCall m X y fit_args]"
    unfolding fit_args_def by (rule fit_keras_model_call [OF gm sw xy])
  show "\<exists>fit_args.
               trace (fst (fit_keras_model x st X y sample_weight kwargs))
                 = trace st @ [FitCall m X y fit_args]
               \<and> map_of fit_args ''sample_weight'' = None"
    by (rule exI [of _ fit_args], rule conjI, rule tr, rule val)
qed

theorem sample_weight_routing_witness:
  "map_of (inject_sample_weight (PArr (NDArray [2] [SReal 1, SReal 2])) [(''epochs'', PInt 3)])
     ''sample_weight'' = Some (PArr (NDArray [2] [SReal 1, SReal 2]))
   \<and> inject_sample_weight PNone [(''epochs'', PInt 3)] = [(''epochs'', PInt 3)]
   \<and> get_model (py_setattr ''model_'' (PModel no_weight_model) example_classifier)
        = Inr no_weight_model
   \<and> \<not> has_arg (fit_sig no_weight_model) ''sample_weight''
   \<and> fit_keras_model example_ext
        (py_setattr ''model_'' (PModel no_weight_model) example_classifier) (PObj 0)
        (Bare (NDArray [2, 1] [SInt 1, SInt 0])) (PArr (NDArray [2] [SReal 1, SReal 2]))
        [(''epochs'', PInt 3)]
      = (py_setattr ''model_'' (PModel no_weight_model) example_classifier,
         Inl (ValueError_SampleWeightUnsupported no_weight_model))
   \<and> get_model example_fitted = Inr example_model
   \<and> has_arg (fit_sig example_model) ''sample_weight''
   \<and> (\<exists>fit_args.
         trace (fst (fit_keras_model example_ext example_fitted (PObj 0)
                       (Bare (NDArray [2, 1] [SInt 1, SInt 0]))
                       (PArr (NDArray [2] [SReal 1, SReal 2])) [(''epochs'', PInt 3)]))
           = trace example_fitted
               @ [FitCall example_model (PObj 0) (Bare (NDArray [2, 1] [SInt 1, SInt 0]))
                    fit_args]
         \<and> map_of fit_args ''sample_weight'' = Some (PArr (NDArray [2] [SReal 1, SReal 2])))
   \<and> (\<exists>fit_args.
         trace (fst (fit_keras_model example_ext example_fitted (PObj 0)
                       (Bare (NDArray [2, 1] [SInt 1, SInt 0])) PNone [(''epochs'', PInt 3)]))
           = trace example_fitted
               @ [FitCall example_model (PObj 0) (Bare (NDArray [2, 1] [SInt 1, SInt 0]))
                    fit_args]
         \<and> map_of fit_args ''sample_weight'' = None)"
proof -
  have h: "get_model (py_setattr ''model_'' (PModel no_weight_model) example_classifier)
             = Inr no_weight_model
           \<and> \<not> has_arg (fit_sig no_weight_model) ''sample_weight''"
    by (simp add: get_model_def py_getattr_def py_setattr_def dict_set_def
        example_classifier_def has_arg_def no_weight_model_def keras_predict_sig_def)
  have g: "get_model example_fitted = Inr example_model"
    by (rule get_model_example_fitted)
  have s: "has_arg (fit_sig example_model) ''sample_weight''"
    by (simp add: has_arg_def example_model_def keras_fit_sig_def)
  have k: "''sample_weight'' \<notin> fst ` set [(''epochs'', PInt 3)] \<union> fst ` set (self_dict example_fitted)"
    "{''x'', ''y''} \<inter> (fst ` set [(''epochs'', PInt 3)] \<union> fst ` set (self_dict example_fitted)) = {}"
    "distinct (map fst [(''epochs'', PInt 3)])"
    by (simp_all add: example_fitted_def)
  have n: "PArr (NDArray [2] [SReal 1, SReal 2]) \<noteq> PNone" by simp
  note t1 = sample_weight_routing
    [of "PArr (NDArray [2] [SReal 1, SReal 2])" "[(''epochs'', PInt 3)]"
        "py_setattr ''model_'' (PModel no_weight_model) example_classifier" no_weight_model
        example_ext "PObj 0" "Bare (NDArray [2, 1] [SInt 1, SInt 0])"]
  note t2 = sample_weight_routing
    [of "PArr (NDArray [2] [SReal 1, SReal 2])" "[(''epochs'', PInt 3)]"
        example_fitted example_model example_ext "PObj 0"
        "Bare (NDArray [2, 1] [SInt 1, SInt 0])"]
  note t3 = sample_weight_routing
    [of PNone "[(''epochs'', PInt 3)]" example_fitted example_model example_ext "PObj 0"
        "Bare (NDArray [2, 1] [SInt 1, SInt 0])"]
  from t1 n h have 1:
    "map_of (inject_sample_weight (PArr (NDArray [2] [SReal 1, SReal 2])) [(''epochs'', PInt 3)])
       ''sample_weight'' = Some (PArr (NDArray [2] [SReal 1, SReal 2]))"
    "fit_keras_model example_ext
        (py_setattr ''model_'' (PModel no_weight_model) example_classifier) (PObj 0)
        (Bare (NDArray [2, 1] [SInt 1, SInt 0])) (PArr (NDArray [2] [SReal 1, SReal 2]))
        [(''epochs'', PInt 3)]
      = (py_setattr ''model_'' (PModel no_weight_model) example_classifier,
         Inl (ValueError_SampleWeightUnsupported no_weight_model))"
    by blast+
  from t2 n g s k have 2:
    "\<exists>fit_args.
         trace (fst (fit_keras_model example_ext example_fitted (PObj 0)
                       (Bare (NDArray [2, 1] [SInt 1, SInt 0]))
                       (PArr (NDArray [2] [SReal 1, SReal 2])) [(''epochs'', PInt 3)]))
           = trace example_fitted
               @ [FitCall example_model (PObj 0) (Bare (NDArray [2, 1] [SInt 1, SInt 0]))
                    fit_args]
         \<and> map_of fit_args ''sample_weight'' = Some (PArr (NDArray [2] [SReal 1, SReal 2]))"
    by blast
  from t3 g k have 3:
    "inject_sample_weight PNone [(''epochs'', PInt 3)] = [(''epochs'', PInt 3)]"
    "\<exists>fit_args.
         trace (fst (fit_keras_model example_ext example_fitted (PObj 0)
                       (Bare (NDArray [2, 1] [SInt 1, SInt 0])) PNone [(''epochs'', PInt 3)]))
           = trace example_fitted
               @ [FitCall example_model (PObj 0) (Bare (NDArray [2, 1] [SInt 1, SInt 0]))
                    fit_args]
         \<and> map_of fit_args ''sample_weight'' = None"
    by blast+
  from h g s 1 2 3 show ?thesis by blast
qed

text \<open>
  C5, as stated: an estimator whose fitted flag is unset or false raises the not-fitted
  condition from \<open>predict\<close>, \<open>predict_proba\<close> and \<open>score\<close>. For \<open>score\<close> this fails:
  it pre-processes \<open>y\<close> before it reaches \<open>predict\<close>, so an unfitted classifier scored
  on continuous labels raises the unknown-label-type error instead.
\<close>

theorem score_unfitted_counterexample:
  "map_of (self_dict example_classifier) ''is_fitted_'' = None
   \<and> score example_ext example_classifier (PObj 0)
        (NDArray [2] [SReal (1 / 2), SReal (3 / 2)]) PNone []
      = (example_classifier, Inl (ValueError_UnknownLabelType ''continuous''))"
proof -
  have "classifier_pre_process_y example_ext (NDArray [2] [SReal (1 / 2), SReal (3 / 2)])
          = Inl (ValueError_UnknownLabelType ''continuous'')"
    by (simp add: classifier_pre_process_y_def base_pre_process_y_def ndim_def
        reshape_column_def example_ext_def shape1_def Let_def sk_type_of_target_def
        less_eq_scalar_def)
  then show ?thesis
    by (simp add: score_def pre_process_y_def example_classifier_def)
qed

text \<open>
  C5, amended. With the fitted flag unset or false, \<open>predict\<close> raises the not-fitted
  condition at once, and so does \<open>predict_proba\<close> on a classifier, the only class that
  defines it (on a regressor the call is an \<open>AttributeError\<close>). \<open>score\<close> raises the
  error of the sample-weight validation when a sample weight other than \<open>None\<close> fails
  it, else the error of the pre-processing of \<open>y\<close> when that fails, and else the
  not-fitted condition. In every case the estimator, and with it the record of
  collaborator calls, is left as it was: the model's \<open>predict\<close> is never invoked.
\<close>

theorem not_fitted_raises:
  "map_of (self_dict st) ''is_fitted_'' = None
     \<or> map_of (self_dict st) ''is_fitted_'' = Some (PBool False)
   \<longrightarrow> predict x st X kwargs = (st, Inl NotFittedError)
     \<and> (est_kind st = ClassifierKind
          \<longrightarrow> predict_proba x st X kwargs = (st, Inl NotFittedError))
     \<and> (est_kind st = RegressorKind
          \<longrightarrow> predict_proba x st X kwargs = (st, Inl (AttributeError ''predict_proba'')))
     \<and> (sample_weight \<noteq> PNone \<and> check_sample_weight x sample_weight X = Inl e
          \<longrightarrow> score x st X y sample_weight kwargs = (st, Inl e))
     \<and> ((sample_weight = PNone \<or> (\<exists>w. check_sample_weight x sample_weight X = Inr w))
          \<and> pre_process_y x st y = Inl e
          \<longrightarrow> score x st X y sample_weight kwargs = (st, Inl e))
     \<and> ((sample_weight = PNone \<or> (\<exists>w. check_sample_weight x sample_weight X = Inr w))
          \<and> (\<exists>r. pre_process_y x st y = Inr r)
          \<longrightarrow> score x st X y sample_weight kwargs = (st, Inl NotFittedError))"
proof
  assume a: "map_of (self_dict st) ''is_fitted_'' = None
     \<or> map_of (self_dict st) ''is_fitted_'' = Some (PBool False)"
  have r: "run_predict x st X kwargs = (st, Inl NotFittedError)" for kwargs
    using a by (rule run_predict_unfitted)
  have p: "predict x st X kwargs = (st, Inl NotFittedError)" for kwargs
    by (simp add: predict_def r)
  have pc: "est_kind st = ClassifierKind
          \<longrightarrow> predict_proba x st X kwargs = (st, Inl NotFittedError)"
    by (simp add: predict_proba_def r)
  have pr: "est_kind st = RegressorKind
          \<longrightarrow> predict_proba x st X kwargs = (st, Inl (AttributeError ''predict_proba''))"
    by (simp add: predict_proba_def)
  have s1: "sample_weight \<noteq> PNone \<and> check_sample_weight x sample_weight X = Inl e
          \<longrightarrow> score x st X y sample_weight kwargs = (st, Inl e)"
    by (simp add: score_def)
  have s2: "(sample_weight = PNone \<or> (\<exists>w. check_sample_weight x sample_weight X = Inr w))
          \<and> pre_process_y x st y = Inl e
          \<longrightarrow> score x st X y sample_weight kwargs = (st, Inl e)"
    by (auto simp: score_def)
  have s3: "(sample_weight = PNone \<or> (\<exists>w. check_sample_weight x sample_weight X = Inr w))
          \<and> (\<exists>r. pre_process_y x st y = Inr r)
          \<longrightarrow> score x st X y sample_weight kwargs = (st, Inl NotFittedError)"
    by (auto simp: score_def p split: sum.splits prod.splits)
  from p pc pr s1 s2 s3
  show "predict x st X kwargs = (st, Inl NotFittedError)
     \<and> (est_kind st = ClassifierKind
          \<longrightarrow> predict_proba x st X kwargs = (st, Inl NotFittedError))
     \<and> (est_kind st = RegressorKind
          \<longrightarrow> predict_proba x st X kwargs = (st, Inl (AttributeError ''predict_proba'')))
     \<and> (sample_weight \<noteq> PNone \<and> check_sample_weight x sample_weight X = Inl e
          \<longrightarrow> score x st X y sample_weight kwargs = (st, Inl e))
     \<and> ((sample_weight = PNone \<or> (\<exists>w. check_sample_weight x sample_weight X = Inr w))
          \<and> pre_process_y x st y = Inl e
          \<longrightarrow> score x st X y sample_weight kwargs = (st, Inl e))
     \<and> ((sample_weight = PNone \<or> (\<exists>w. check_sample_weight x sample_weight X = Inr w))
          \<and> (\<exists>r. pre_process_y x st y = Inr r)
          \<longrightarrow> score x st X y sample_weight kwargs = (st, Inl NotFittedError))"
    by blast
qed

theorem not_fitted_raises_witness:
  "map_of (self_dict example_classifier) ''is_fitted_'' = None
   \<and> predict example_ext example_classifier (PObj 0) [] = (example_classifier, Inl NotFittedError)
   \<and> est_kind example_classifier = ClassifierKind
   \<and> predict_proba example_ext example_classifier (PObj 0) []
       = (example_classifier, Inl NotFittedError)
   \<and> (\<exists>r. pre_process_y example_ext example_classifier (NDArray [2] [SInt 1, SInt 0]) = Inr r)
   \<and> score example_ext example_classifier (PObj 0) (NDArray [2] [SInt 1, SInt 0]) PNone []
       = (example_classifier, Inl NotFittedError)
   \<and> pre_process_y example_ext example_classifier continuous_labels
       = Inl (ValueError_UnknownLabelType ''continuous'')
   \<and> score example_ext example_classifier (PObj 0) continuous_labels PNone []
       = (example_classifier, Inl (ValueError_UnknownLabelType ''continuous''))
   \<and> check_sample_weight rejecting_ext (PInt 3) (PObj 0) = Inl (ValueError ''sample_weight'')
   \<and> score rejecting_ext example_classifier (PObj 0) (NDArray [2] [SInt 1, SInt 0]) (PInt 3) []
       = (example_classifier, Inl (ValueError ''sample_weight''))
   \<and> map_of (self_dict example_prebuilt) ''is_fitted_'' = None
   \<and> est_kind example_prebuilt = RegressorKind
   \<and> predict example_ext example_prebuilt (PObj 0) [] = (example_prebuilt, Inl NotFittedError)
   \<and> predict_proba example_ext example_prebuilt (PObj 0) []
       = (example_prebuilt, Inl (AttributeError ''predict_proba''))"
proof -
  have u: "map_of (self_dict example_classifier) ''is_fitted_'' = None"
    by (simp add: example_classifier_def)
  have k: "est_kind example_classifier = ClassifierKind"
    by (simp add: example_classifier_def)
  have "\<exists>r. classifier_pre_process_y example_ext (NDArray [2] [SInt 1, SInt 0]) = Inr r"
    by (simp add: classifier_pre_process_y_def base_pre_process_y_def ndim_def
        reshape_column_def example_ext_def shape1_def Let_def sk_type_of_target_def
        less_eq_scalar_def)
  then have r: "\<exists>r. pre_process_y example_ext example_classifier (NDArray [2] [SInt 1, SInt 0]) = Inr r"
    by (simp add: pre_process_y_def k)
  have "classifier_pre_process_y example_ext continuous_labels
          = Inl (ValueError_UnknownLabelType ''continuous'')"
    by (simp add: classifier_pre_process_y_def base_pre_process_y_def ndim_def
        reshape_column_def example_ext_def shape1_def Let_def sk_type_of_target_def
        less_eq_scalar_def continuous_labels_def)
  then have c: "pre_process_y example_ext example_classifier continuous_labels
       = Inl (ValueError_UnknownLabelType ''continuous'')"
    by (simp add: pre_process_y_def k)
  have w: "check_sample_weight rejecting_ext (PInt 3) (PObj 0) = Inl (ValueError ''sample_weight'')"
    "PInt 3 \<noteq> PNone"
    by (simp_all add: rejecting_ext_def)
  have v: "map_of (self_dict example_prebuilt) ''is_fitted_'' = None"
    "est_kind example_prebuilt = RegressorKind"
    by (simp_all add: example_prebuilt_def)
  note t1 = not_fitted_raises
    [of example_classifier example_ext "PObj 0" "[]" PNone "ValueError []"
        "NDArray [2] [SInt 1, SInt 0]"]
  note t2 = not_fitted_raises
    [of example_classifier example_ext "PObj 0" "[]" PNone
        "ValueError_UnknownLabelType ''continuous''" continuous_labels]
  note t3 = not_fitted_raises
    [of example_classifier rejecting_ext "PObj 0" "[]" "PInt 3" "ValueError ''sample_weight''"
        "NDArray [2] [SInt 1, SInt 0]"]
  note t4 = not_fitted_raises
    [of example_prebuilt example_ext "PObj 0" "[]" PNone "ValueError []" continuous_labels]
  from t1 u k r have 1:
    "predict example_ext example_classifier (PObj 0) [] = (example_classifier, Inl NotFittedError)"
    "predict_proba example_ext example_classifier (PObj 0) []
       = (example_classifier, Inl NotFittedError)"
    "score example_ext example_classifier (PObj 0) (NDArray [2] [SInt 1, SInt 0]) PNone []
       = (example_classifier, Inl NotFittedError)"
    by blast+
  from t2 u c have 2:
    "score example_ext example_classifier (PObj 0) continuous_labels PNone []
       = (example_classifier, Inl (ValueError_UnknownLabelType ''continuous''))"
    by blast
  from t3 u w have 3:
    "score rejecting_ext example_classifier (PObj 0) (NDArray [2] [SInt 1, SInt 0]) (PInt 3) []
       = (example_classifier, Inl (ValueError ''sample_weight''))"
    by blast
  from t4 v have 4:
    "predict example_ext example_prebuilt (PObj 0) [] = (example_prebuilt, Inl NotFittedError)"
    "predict_proba example_ext example_prebuilt (PObj 0) []
       = (example_prebuilt, Inl (AttributeError ''predict_proba''))"
    by blast+
  from u k r c w v 1 2 3 4 show ?thesis by simp
qed

text \<open>
  C6. Build-spec resolution probes in this order. Without a specification the estimator
  must implement \<open>__call__\<close> itself, else a configuration error. A pre-built model
  instance resolves to cloning, whatever the estimator implements, and building then
  yields the recompiled clone, or a configuration error when the instance carries no
  training configuration. A plain function or a callable object is accepted only if the
  estimator does not implement \<open>__call__\<close>, else a configuration error. Anything else is
  a configuration error.
\<close>

theorem build_spec_resolution:
  "snd (check_build_fn st PNone)
     = (if has_call st then Inr SelfCall else Inl ValueError_MustImplementCall)
   \<and> snd (check_build_fn st (PModel m)) = Inr ClonePrebuilt
   \<and> (map_of (self_dict st) ''build_fn'' = Some (PModel m) \<and> distinct (map fst (self_dict st))
        \<and> ''build_fn'' \<notin> fst ` set kwargs
      \<longrightarrow> snd (build_keras_model x st X y sample_weight kwargs)
            = (case training_config m of
                 None \<Rightarrow> Inl (ValueError_NotCompiled m)
               | Some tc \<Rightarrow> Inr (compile_model x (clone_model x m) tc)))
   \<and> snd (check_build_fn st (PFunction f))
     = (if has_call st then Inl ValueError_CannotImplementCall else Inr (PlainFunction f))
   \<and> snd (check_build_fn st (PCallableObj f))
     = (if has_call st then Inl ValueError_CannotImplementCall else Inr (ObjectCall f))
   \<and> (build_fn \<noteq> PNone \<and> \<not> is_model_instance build_fn \<and> \<not> is_function build_fn
        \<and> \<not> is_callable_object build_fn
      \<longrightarrow> snd (check_build_fn st build_fn) = Inl ValueError_BuildFnNotCallable)"
proof (intro conjI impI)
  assume a: "map_of (self_dict st) ''build_fn'' = Some (PModel m) \<and> distinct (map fst (self_dict st))
        \<and> ''build_fn'' \<notin> fst ` set kwargs"
  have c: "check_build_fn st (PModel m)
             = (st\<lparr>legal_params_fns := legal_params_fns st @ [ClonePrebuilt]\<rparr>, Inr ClonePrebuilt)"
    by (simp add: check_build_fn_def)
  have g: "py_getattr st ''build_fn'' = Inr (PModel m)"
    using a by (simp add: py_getattr_def)
  show "snd (build_keras_model x st X y sample_weight kwargs)
            = (case training_config m of
                 None \<Rightarrow> Inl (ValueError_NotCompiled m)
               | Some tc \<Rightarrow> Inr (compile_model x (clone_model x m) tc))"
    using a build_args_prebuilt [of "self_dict st" m kwargs X y sample_weight]
    by (simp add: build_keras_model_def g c Let_def call_final_build_fn_def
        clone_prebuilt_model_def split: option.splits sum.splits)
qed (simp_all add: check_build_fn_def)

theorem build_spec_resolution_witness:
  "map_of (self_dict example_prebuilt) ''build_fn'' = Some (PModel uncompiled_model)
   \<and> snd (build_keras_model example_ext example_prebuilt (PObj 0) (PSeq []) PNone [])
       = Inl (ValueError_NotCompiled uncompiled_model)
   \<and> \<not> is_callable_object (PInt 3)
   \<and> snd (check_build_fn example_prebuilt (PInt 3)) = Inl ValueError_BuildFnNotCallable"
proof -
  have h: "map_of (self_dict example_prebuilt) ''build_fn'' = Some (PModel uncompiled_model)
           \<and> distinct (map fst (self_dict example_prebuilt))
           \<and> ''build_fn'' \<notin> fst ` set ([] :: pyval dict)"
    by (simp add: example_prebuilt_def)
  have t: "training_config uncompiled_model = None"
    by (simp add: uncompiled_model_def)
  have n: "PInt 3 \<noteq> PNone \<and> \<not> is_model_instance (PInt 3) \<and> \<not> is_function (PInt 3)
           \<and> \<not> is_callable_object (PInt 3)"
    by simp
  from build_spec_resolution
    [of example_prebuilt uncompiled_model "[]" example_ext "PObj 0" "PSeq []" PNone _ "PInt 3"]
    h t n
  show ?thesis by simp
qed

text \<open>
  C8, as stated: a \<open>set_params\<close> call with an unrecognized top-level name raises and
  leaves every parameter value unchanged, wherever the invalid name stands. The loop
  assigns each valid name as it meets it, so \<open>set_params(epochs=5, bogus=0)\<close> raises
  with \<open>epochs\<close> already changed from 1 to 5.
\<close>

theorem set_params_not_atomic_counterexample:
  "py_getattr example_classifier ''epochs'' = Inr (PInt 1)
   \<and> snd (set_params example_ext example_classifier [(''epochs'', PInt 5), (''bogus'', PInt 0)])
       = Inl (ValueError_InvalidParameter ''bogus'')
   \<and> py_getattr (fst (set_params example_ext example_classifier
                         [(''epochs'', PInt 5), (''bogus'', PInt 0)])) ''epochs''
       = Inr (PInt 5)"
proof -
  have "set_params example_ext example_classifier [(''epochs'', PInt 5), (''bogus'', PInt 0)]
          = (py_setattr ''epochs'' (PInt 5) example_classifier,
             Inl (ValueError_InvalidParameter ''bogus''))"
    by (simp add: set_params_def example_valid_params dict_keys_def dict_set_def)
  then show ?thesis
    by (simp add: py_setattr_def py_getattr_def example_classifier_def dict_set_def)
qed

text \<open>
  C8, amended. When the parameters supplied before the first unrecognized top-level name
  are all recognized, \<open>set_params\<close> raises the error naming the invalid parameter. By
  then the un-nested parameters supplied before it have been assigned, and every
  attribute not supplied before it is unchanged; when the invalid name comes first the
  estimator is unchanged.
\<close>

theorem set_params_invalid_name:
  "get_params x st True = Inr valid
   \<and> (\<forall>(k, u) \<in> set pre. fst (partition_dunder k) \<in> set (dict_keys valid))
   \<and> fst (partition_dunder full_key) \<notin> set (dict_keys valid)
   \<longrightarrow> snd (set_params x st (pre @ (full_key, v) # post))
         = Inl (ValueError_InvalidParameter (fst (partition_dunder full_key)))
       \<and> (\<forall>a. (\<forall>(k, u) \<in> set pre. k \<noteq> a)
             \<longrightarrow> map_of (self_dict (fst (set_params x st (pre @ (full_key, v) # post)))) a
                   = map_of (self_dict st) a)
       \<and> (\<forall>k u. distinct (map fst pre) \<and> (k, u) \<in> set pre
                  \<and> fst (snd (partition_dunder k)) = []
             \<longrightarrow> map_of (self_dict (fst (set_params x st (pre @ (full_key, v) # post)))) k
                   = Some u)
       \<and> (pre = [] \<longrightarrow> fst (set_params x st (pre @ (full_key, v) # post)) = st)"
proof
  assume a: "get_params x st True = Inr valid
   \<and> (\<forall>(k, u) \<in> set pre. fst (partition_dunder k) \<in> set (dict_keys valid))
   \<and> fst (partition_dunder full_key) \<notin> set (dict_keys valid)"
  then obtain st1 where
    l: "set_params_loop (pre @ (full_key, v) # post) st valid []
          = (st1, Inl (ValueError_InvalidParameter (fst (partition_dunder full_key))))"
    and r: "(\<forall>a. (\<forall>(k, u) \<in> set pre. k \<noteq> a)
                 \<longrightarrow> map_of (self_dict st1) a = map_of (self_dict st) a)
           \<and> (\<forall>k u. distinct (map fst pre) \<and> (k, u) \<in> set pre
                      \<and> fst (snd (partition_dunder k)) = []
                 \<longrightarrow> map_of (self_dict st1) k = Some u)
           \<and> (pre = [] \<longrightarrow> st1 = st)"
    using set_params_loop_invalid [of pre valid full_key v post st "[]"] by blast
  have "set_params x st (pre @ (full_key, v) # post)
          = (st1, Inl (ValueError_InvalidParameter (fst (partition_dunder full_key))))"
    using a l by (simp add: set_params_def)
  with r show "snd (set_params x st (pre @ (full_key, v) # post))
         = Inl (ValueError_InvalidParameter (fst (partition_dunder full_key)))
       \<and> (\<forall>a. (\<forall>(k, u) \<in> set pre. k \<noteq> a)
             \<longrightarrow> map_of (self_dict (fst (set_params x st (pre @ (full_key, v) # post)))) a
                   = map_of (self_dict st) a)
       \<and> (\<forall>k u. distinct (map fst pre) \<and> (k, u) \<in> set pre
                  \<and> fst (snd (partition_dunder k)) = []
             \<longrightarrow> map_of (self_dict (fst (set_params x st (pre @ (full_key, v) # post)))) k
                   = Some u)
       \<and> (pre = [] \<longrightarrow> fst (set_params x st (pre @ (full_key, v) # post)) = st)"
    by auto
qed

theorem set_params_invalid_name_witness:
  "get_params example_ext example_classifier True
     = Inr [(''batch_size'', PInt 32), (''build_fn'', PFunction example_build_fn),
            (''epochs'', PInt 1)]
   \<and> snd (set_params example_ext example_classifier [(''epochs'', PInt 5), (''bogus'', PInt 0)])
       = Inl (ValueError_InvalidParameter ''bogus'')
   \<and> map_of (self_dict (fst (set_params example_ext example_classifier
                               [(''epochs'', PInt 5), (''bogus'', PInt 0)]))) ''batch_size''
       = map_of (self_dict example_classifier) ''batch_size''
   \<and> map_of (self_dict (fst (set_params example_ext example_classifier
                               [(''epochs'', PInt 5), (''bogus'', PInt 0)]))) ''epochs''
       = Some (PInt 5)
   \<and> fst (set_params example_ext example_classifier [(''bogus'', PInt 0), (''epochs'', PInt 5)])
       = example_classifier"
proof -
  let ?valid = "[(''batch_size'', PInt 32), (''build_fn'', PFunction example_build_fn),
                 (''epochs'', PInt 1)]"
  have p: "partition_dunder ''bogus'' = (''bogus'', [], [])"
          "partition_dunder ''epochs'' = (''epochs'', [], [])"
    by simp_all
  have h1: "get_params example_ext example_classifier True = Inr ?valid
     \<and> (\<forall>(k, u) \<in> set [(''epochs'', PInt 5)]. fst (partition_dunder k) \<in> set (dict_keys ?valid))
     \<and> fst (partition_dunder ''bogus'') \<notin> set (dict_keys ?valid)"
    using example_valid_params by (simp add: p dict_keys_def)
  have h2: "get_params example_ext example_classifier True = Inr ?valid
     \<and> (\<forall>(k, u) \<in> set ([] :: pyval dict). fst (partition_dunder k) \<in> set (dict_keys ?valid))
     \<and> fst (partition_dunder ''bogus'') \<notin> set (dict_keys ?valid)"
    using example_valid_params by (simp add: p dict_keys_def)
  note t1 = set_params_invalid_name
    [of example_ext example_classifier ?valid "[(''epochs'', PInt 5)]" "''bogus''" "PInt 0" "[]"]
  note t2 = set_params_invalid_name
    [of example_ext example_classifier ?valid "[]" "''bogus''" "PInt 0" "[(''epochs'', PInt 5)]"]
  from t1 h1 have c1:
    "snd (set_params example_ext example_classifier ([(''epochs'', PInt 5)] @ [(''bogus'', PInt 0)]))
       = Inl (ValueError_InvalidParameter (fst (partition_dunder ''bogus'')))"
    and c2: "\<forall>a. (\<forall>(k, u) \<in> set [(''epochs'', PInt 5)]. k \<noteq> a)
             \<longrightarrow> map_of (self_dict (fst (set_params example_ext example_classifier
                     ([(''epochs'', PInt 5)] @ [(''bogus'', PInt 0)])))) a
                   = map_of (self_dict example_classifier) a"
    and c3: "\<forall>k u. distinct (map fst [(''epochs'', PInt 5)]) \<and> (k, u) \<in> set [(''epochs'', PInt 5)]
                  \<and> fst (snd (partition_dunder k)) = []
             \<longrightarrow> map_of (self_dict (fst (set_params example_ext example_classifier
                     ([(''epochs'', PInt 5)] @ [(''bogus'', PInt 0)])))) k
                   = Some u"
    by blast+
  from t2 h2 have c4:
    "fst (set_params example_ext example_classifier ([] @ (''bogus'', PInt 0) # [(''epochs'', PInt 5)]))
       = example_classifier"
    by blast
  from c2 have c2': "map_of (self_dict (fst (set_params example_ext example_classifier
                     ([(''epochs'', PInt 5)] @ [(''bogus'', PInt 0)])))) ''batch_size''
                   = map_of (self_dict example_classifier) ''batch_size''"
    by simp
  from c3 p have c3': "map_of (self_dict (fst (set_params example_ext example_classifier
                     ([(''epochs'', PInt 5)] @ [(''bogus'', PInt 0)])))) ''epochs''
                   = Some (PInt 5)"
    by simp
  from example_valid_params c1 c2' c3' c4 p show ?thesis by simp
qed

text \<open>
  C9. In a classifier fit the blocks that reach the output-count check are the
  pre-processed blocks, except that each block which is one-dimensional or has a single
  column, and whose paired loss of the compiled model is categorical crossentropy, is
  replaced by its one-hot expansion; a block paired with any other loss, or with no
  loss, is passed on as it is.
\<close>

theorem categorical_loss_one_hot_blocks:
  "get_model st = Inr m \<and> model_losses st m = Inr losses
   \<and> classifier_check_output_model_compatibility x st y = Inr r
   \<longrightarrow> (\<exists>y1. length y1 = length y
            \<and> (\<forall>i<length y.
                  if i < length losses \<and> is_categorical_crossentropy (losses ! i)
                       \<and> (ndim (y ! i) = 1 \<or> shape1 (y ! i) = Inr 1)
                  then to_categorical x (y ! i) = Inr (y1 ! i)
                  else y1 ! i = y ! i)
            \<and> base_check_output_model_compatibility st y1 = Inr r)"
proof
  assume a: "get_model st = Inr m \<and> model_losses st m = Inr losses
   \<and> classifier_check_output_model_compatibility x st y = Inr r"
  then obtain y1 where e: "encode_loop x 0 (zip losses y) y = Inr y1"
    and b: "base_check_output_model_compatibility st y1 = Inr r"
    by (auto simp: classifier_check_output_model_compatibility_def bind_res_Inr)
  from encode_loop_zip [OF e] b
  show "\<exists>y1. length y1 = length y
            \<and> (\<forall>i<length y.
                  if i < length losses \<and> is_categorical_crossentropy (losses ! i)
                       \<and> (ndim (y ! i) = 1 \<or> shape1 (y ! i) = Inr 1)
                  then to_categorical x (y ! i) = Inr (y1 ! i)
                  else y1 ! i = y ! i)
            \<and> base_check_output_model_compatibility st y1 = Inr r"
    by blast
qed

theorem categorical_loss_one_hot_blocks_witness:
  "get_model example_categorical = Inr categorical_model
   \<and> model_losses example_categorical categorical_model = Inr [CategoricalCrossentropy]
   \<and> classifier_check_output_model_compatibility example_ext example_categorical
        [example_index_block] = Inr (Bare example_one_hot)
   \<and> (\<exists>y1. length y1 = length [example_index_block]
          \<and> (\<forall>i<length [example_index_block].
                if i < length [CategoricalCrossentropy]
                     \<and> is_categorical_crossentropy ([CategoricalCrossentropy] ! i)
                     \<and> (ndim ([example_index_block] ! i) = 1
                          \<or> shape1 ([example_index_block] ! i) = Inr 1)
                then to_categorical example_ext ([example_index_block] ! i) = Inr (y1 ! i)
                else y1 ! i = [example_index_block] ! i)
          \<and> base_check_output_model_compatibility example_categorical y1
              = Inr (Bare example_one_hot))"
proof -
  have h: "get_model example_categorical = Inr categorical_model
     \<and> model_losses example_categorical categorical_model = Inr [CategoricalCrossentropy]
     \<and> classifier_check_output_model_compatibility example_ext example_categorical
          [example_index_block] = Inr (Bare example_one_hot)"
    using get_model_example_categorical model_losses_example_categorical
      check_example_categorical by simp
  from categorical_loss_one_hot_blocks
    [of example_categorical categorical_model "[CategoricalCrossentropy]" example_ext
        "[example_index_block]" "Bare example_one_hot"] h
  show ?thesis by blast
qed

text \<open>
  C10. Every array \<open>predict\<close> returns is the result of a squeeze and so has no
  dimension of extent one; the same holds for the post-processing \<open>BaseWrapper\<close>
  defines. A model output of shape \<open>(n, 1)\<close> comes back one-dimensional of length \<open>n\<close>
  when there are several samples, and zero-dimensional for a single sample, from the
  regressor, from the classifier (single output, one-dimensional vocabulary) and from
  the base post-processing.
\<close>

theorem predictions_are_squeezed:
  "(snd (predict x st X kwargs) = Inr y \<longrightarrow> 1 \<notin> set (shape y))
   \<and> (base_post_process_y out = Inr (y, extra) \<longrightarrow> 1 \<notin> set (shape y))
   \<and> (regressor_post_process_y (OutArr (NDArray [n, 1] d)) = Inr (y, extra)
        \<longrightarrow> shape y = (if n = 1 then [] else [n]))
   \<and> (py_getattr st ''n_outputs_'' = Inr (PInt 1)
        \<and> py_getattr st ''classes_'' = Inr (PArr (NDArray [k] cs))
        \<and> classifier_post_process_y st (OutArr (NDArray [n, 1] d)) = Inr (y, extra)
        \<longrightarrow> shape y = (if n = 1 then [] else [n]))
   \<and> (base_post_process_y (OutArr (NDArray [n, 1] d)) = Inr (y, extra)
        \<longrightarrow> shape y = (if n = 1 then [] else [n]))"
proof (intro conjI impI)
  assume "snd (predict x st X kwargs) = Inr y"
  then show "1 \<notin> set (shape y)"
    using predict_squeezed squeeze_no_singleton by blast
next
  assume "base_post_process_y out = Inr (y, extra)"
  then show "1 \<notin> set (shape y)"
    using base_post_process_y_squeezed squeeze_no_singleton by blast
next
  assume "regressor_post_process_y (OutArr (NDArray [n, 1] d)) = Inr (y, extra)"
  then show "shape y = (if n = 1 then [] else [n])"
    by (auto simp: regressor_post_process_y_def bind_res_Inr squeeze_def
        dest!: shape_astype_float)
next
  assume "py_getattr st ''n_outputs_'' = Inr (PInt 1)
        \<and> py_getattr st ''classes_'' = Inr (PArr (NDArray [k] cs))
        \<and> classifier_post_process_y st (OutArr (NDArray [n, 1] d)) = Inr (y, extra)"
  then show "shape y = (if n = 1 then [] else [n])"
    using classifier_post_process_y_column by blast
next
  assume "base_post_process_y (OutArr (NDArray [n, 1] d)) = Inr (y, extra)"
  then show "shape y = (if n = 1 then [] else [n])"
    by (rule base_post_process_y_column)
qed

theorem predictions_are_squeezed_witness:
  "snd (predict example_ext example_fitted (PObj 0) [])
     = Inr (NDArray [2] [SStr ''yes'', SStr ''no''])
   \<and> 1 \<notin> set (shape (NDArray [2] [SStr ''yes'', SStr ''no'']))
   \<and> base_post_process_y (OutArr example_output)
       = Inr (NDArray [2] [SReal (7 / 10), SReal (1 / 5)], [])
   \<and> regressor_post_process_y (OutArr (NDArray [1, 1] [SInt 3])) = Inr (NDArray [] [SReal 3], [])
   \<and> shape (NDArray [] [SReal 3]) = (if (1 :: nat) = 1 then [] else [1])
   \<and> (\<exists>probs. classifier_post_process_y example_fitted (OutArr example_output)
                 = Inr (NDArray [2] [SStr ''yes'', SStr ''no''], probs))
   \<and> shape (NDArray [2] [SStr ''yes'', SStr ''no'']) = (if (2 :: nat) = 1 then [] else [2])"
proof -
  note t1 = predictions_are_squeezed
    [of example_ext example_fitted "PObj 0" "[]" "NDArray [2] [SStr ''yes'', SStr ''no'']"
        "OutArr example_output" "[]" 2 "[SReal (7 / 10), SReal (1 / 5)]" 2
        "[SStr ''no'', SStr ''yes'']"]
  note t2 = predictions_are_squeezed
    [of example_ext example_fitted "PObj 0" "[]" "NDArray [2] [SReal (7 / 10), SReal (1 / 5)]"
        "OutArr example_output" "[]" 2 "[SReal (7 / 10), SReal (1 / 5)]" 2
        "[SStr ''no'', SStr ''yes'']"]
  note t3 = predictions_are_squeezed
    [of example_ext example_fitted "PObj 0" "[]" "NDArray [] [SReal 3]"
        "OutArr example_output" "[]" 1 "[SInt 3]" 2 "[SStr ''no'', SStr ''yes'']"]
  from t1 predict_example have a: "1 \<notin> set (shape (NDArray [2] [SStr ''yes'', SStr ''no'']))"
    by blast
  from t2 base_post_process_example have b: "1 \<notin> set (shape (NDArray [2] [SReal (7 / 10), SReal (1 / 5)]))"
    by blast
  from t3 regressor_post_process_example have c: "shape (NDArray [] [SReal 3]) = (if (1 :: nat) = 1 then [] else [1])"
    by blast
  from predict_example base_post_process_example regressor_post_process_example classifier_post_process_example a b c show ?thesis by simp
qed

text \<open>
  C4. When the number of label blocks differs from the number of outputs the constructed
  model exposes, \<open>fit\<close> is to raise before the model's \<open>fit\<close> is invoked. The check
  compares the number of blocks with \<open>n_outputs_keras_\<close>, which pre-processing derived
  from the labels themselves, and never looks at the model: fitting the indicator matrix
  \<open>[[1, 0], [0, 1], [1, 1]]\<close> with a model of a single output raises nothing, and the
  model's \<open>fit\<close> is invoked with the two squeezed blocks.
\<close>

theorem fit_ignores_model_output_count:
  "n_heads example_model = 1
   \<and> snd (fit example_ext example_classifier (PObj 0) multilabel_y PNone []) = Inr ()
   \<and> trace (fst (fit example_ext example_classifier (PObj 0) multilabel_y PNone []))
       = [BuildCall (PlainFunction example_build_fn) [],
          FitCall example_model (PObj 0)
            (Blocks [NDArray [3] [SInt 1, SInt 0, SInt 1], NDArray [3] [SInt 0, SInt 1, SInt 1]])
            [(''epochs'', PInt 1), (''batch_size'', PInt 32)]]"
proof -
  have k: "est_kind example_classifier = ClassifierKind" by (simp add: example_classifier_def)
  have e: "check_X_y example_ext (PObj 0) multilabel_y = Inr (PObj 0, multilabel_y)"
    "check_array example_ext (PObj 0) = Inr (PObj 0)"
    by (simp_all add: example_ext_def)
  have "base_fit example_ext example_classifier (PObj 0) multilabel_y PNone []
     = (example_classifier
          \<lparr>self_dict := self_dict example_classifier
               @ [(''classes_'', PSeq [PArr (NDArray [2] [SInt 0, SInt 1]),
                                        PArr (NDArray [2] [SInt 0, SInt 1])]),
                  (''n_outputs_'', PInt 2), (''n_outputs_keras_'', PInt 2),
                  (''n_classes_'', PSeq [PInt 2, PInt 2]),
                  (''cls_type_'', PStr ''multilabel-indicator''),
                  (''model_'', PModel example_model), (''history_'', PHistory 0),
                  (''is_fitted_'', PBool True)],
            legal_params_fns := [PlainFunction example_build_fn, ModelFit example_model,
                                 ModelPredict example_model],
            trace := [BuildCall (PlainFunction example_build_fn) [],
              FitCall example_model (PObj 0)
                (Blocks [NDArray [3] [SInt 1, SInt 0, SInt 1], NDArray [3] [SInt 0, SInt 1, SInt 1]])
                [(''epochs'', PInt 1), (''batch_size'', PInt 32)]]\<rparr>, Inr ())"
    apply (simp add: base_fit_def e pre_process_multilabel pre_process_X_def)
    apply (simp add: example_classifier_def store_extra_args_def py_setattr_def dict_set_def
        build_keras_model_def py_getattr_def check_build_fn_def has_call_def
        filter_params_def pool_or_def filter_step_def has_arg_def example_build_fn_def
        dict_merge_def call_final_build_fn_def example_ext_def known_fns_def
        example_model_def keras_fit_sig_def keras_predict_sig_def
        check_output_model_compatibility_def classifier_check_output_model_compatibility_def
        get_model_def model_losses_def is_categorical_crossentropy_def multilabel_blocks_def
        base_check_output_model_compatibility_def squeeze_def
        fit_keras_model_def inject_sample_weight_def dict_keys_def Let_def
        eval_nat_numeral)
    done
  then show ?thesis
    by (simp add: fit_def k example_model_def)
qed



end
